theory Spec2Isabelle
  imports Complex_Main "HOL-Library.Word"
begin

section \<open>Types (HttpToMqtt/Types/__init__.py)\<close>

text \<open>
  The pydantic models of the repository become records.  A field name that occurs in
  more than one model gets a prefix in all but one of them, since record fields are
  global constants.  Python's unbounded \<open>int\<close> is \<open>int\<close>, a \<open>str\<close> is a \<open>string\<close>, a
  \<open>List\<close> is a list.  Equality of two model objects in Python (\<open>==\<close>, \<open>in\<close>,
  \<open>list.remove\<close>) compares the fields, which is equality of records.
\<close>

type_synonym byte = "8 word"

record ShelfPosition =
  pos_ShelfNumber :: int
  PositionId :: int
  LEDs :: "int list"

record Shelf =
  ShelfNumber :: int
  Mac_Address :: string
  Positions :: "ShelfPosition list"

record ESP32 =
  esp_Mac_Address :: string
  isUsed :: bool
  isOnline :: bool

record ACK =
  ack_Mac_Address :: string
  ACK_id :: int

record DB =
  Shelves :: "Shelf list"
  ESP32s :: "ESP32 list"

section \<open>Colour strings (HttpToMqtt/Api/__init__.py, color_string_to_byte_array)\<close>

text \<open>
  \<open>re.match("#[0-9a-fA-F]{6}", s)\<close> matches at the beginning of \<open>s\<close> only: it asks for a
  \<open>#\<close> and six hexadecimal digits, and says nothing about what follows them.
\<close>

definition is_hex_digit :: "char \<Rightarrow> bool" where
  "is_hex_digit c = (c \<in> set ''0123456789abcdefABCDEF'')"

definition re_match_color :: "string \<Rightarrow> bool" where
  "re_match_color s =
     (case s of
        [] \<Rightarrow> False
      | c # cs \<Rightarrow> c = CHR ''#'' \<and> 6 \<le> length cs \<and> list_all is_hex_digit (take 6 cs))"

text \<open>\<open>str.upper\<close>, on the characters a colour string can hold after the match.\<close>

definition upper_char :: "char \<Rightarrow> char" where
  "upper_char c =
     (if (97::nat) \<le> of_char c \<and> of_char c \<le> (122::nat)
      then char_of (of_char c - (32::nat)) else c)"

definition upper :: "string \<Rightarrow> string" where
  "upper s = map upper_char s"

text \<open>
  \<open>bytearray.fromhex\<close>: two hexadecimal digits per byte; \<open>None\<close> stands for the
  \<open>ValueError\<close> it raises on any other character or on an odd number of digits.
\<close>

definition hex_value :: "char \<Rightarrow> nat option" where
  "hex_value c =
     (let n = (of_char c :: nat) in
      if 48 \<le> n \<and> n \<le> 57 then Some (n - 48)
      else if 65 \<le> n \<and> n \<le> 70 then Some (n - 55)
      else if 97 \<le> n \<and> n \<le> 102 then Some (n - 87)
      else None)"

fun fromhex :: "string \<Rightarrow> byte list option" where
  "fromhex [] = Some []"
| "fromhex [c] = None"
| "fromhex (h # l # rest) =
     (case hex_value h of
        None \<Rightarrow> None
      | Some a \<Rightarrow>
          (case hex_value l of
             None \<Rightarrow> None
           | Some b \<Rightarrow>
               (case fromhex rest of
                  None \<Rightarrow> None
                | Some bs \<Rightarrow> Some (of_nat (16 * a + b) # bs))))"

text \<open>
  The function itself: on a match, the first seven characters of the \<^emph>\<open>whole\<close> input
  (\<open>res.string[0:7]\<close>) are upper-cased and the six after the \<open>#\<close> are decoded; the
  \<open>ValueError\<close> of the decoding and a failed match both give \<open>None\<close>.
\<close>

definition color_string_to_byte_array :: "string \<Rightarrow> byte list option" where
  "color_string_to_byte_array color_as_string =
     (if re_match_color color_as_string
      then fromhex (drop 1 (upper (take 7 color_as_string)))
      else None)"

section \<open>The database and its files (HttpToMqtt/DataManager/__init__.py)\<close>

text \<open>
  The state of a \<open>DataManager\<close> object: the database it holds in memory and the contents
  of the two files it writes, the JSON file and its backup (\<open>None\<close>: no such file).
  A file holds the serialisation of a whole \<open>DB\<close>; the model keeps the \<open>DB\<close> that was
  serialised.

  Python hands out references: \<open>get_shelf_by_shelf_number\<close> returns the \<open>Shelf\<close> object
  that sits in the list of the database, and an assignment to a field of that object
  changes the database.  A reference to an object of a list is modelled by the index of
  the object in the list.
\<close>

datatype error = Exception | ValueError | AttributeError | IndexError

record DataManager =
  db :: DB
  json_file :: "DB option"
  json_file_backup :: "DB option"

fun find_index :: "('a \<Rightarrow> bool) \<Rightarrow> 'a list \<Rightarrow> nat option" where
  "find_index P [] = None"
| "find_index P (x # xs) = (if P x then Some 0 else map_option Suc (find_index P xs))"

definition save_data :: "DataManager \<Rightarrow> DataManager" where
  "save_data dm = dm\<lparr>json_file := Some (db dm)\<rparr>"

definition save_backup_data :: "DataManager \<Rightarrow> DataManager" where
  "save_backup_data dm = dm\<lparr>json_file_backup := Some (db dm)\<rparr>"

definition shelf_exists :: "DataManager \<Rightarrow> int \<Rightarrow> bool" where
  "shelf_exists dm shelf_number =
     list_ex (\<lambda>shelf. shelf_number = ShelfNumber shelf) (Shelves (db dm))"

definition shelf_exists_by_mac_address :: "DataManager \<Rightarrow> string \<Rightarrow> bool" where
  "shelf_exists_by_mac_address dm mac_address =
     list_ex (\<lambda>shelf. Mac_Address shelf = mac_address) (Shelves (db dm))"

definition mac_address_exists :: "DataManager \<Rightarrow> string \<Rightarrow> bool" where
  "mac_address_exists dm mac_address =
     list_ex (\<lambda>esp32. mac_address = esp_Mac_Address esp32) (ESP32s (db dm))"

definition position_id_exists :: "DataManager \<Rightarrow> int \<Rightarrow> int \<Rightarrow> bool" where
  "position_id_exists dm shelf_number position_id =
     (if \<not> shelf_exists dm shelf_number then False
      else list_ex (\<lambda>shelf. ShelfNumber shelf = shelf_number \<and>
                      list_ex (\<lambda>position. PositionId position = position_id) (Positions shelf))
             (Shelves (db dm)))"

text \<open>The reference to the first shelf with the number, and to the first with the address.\<close>

definition get_shelf_by_shelf_number :: "DataManager \<Rightarrow> int \<Rightarrow> nat option" where
  "get_shelf_by_shelf_number dm shelf_number =
     (if \<not> shelf_exists dm shelf_number then None
      else find_index (\<lambda>shelf. ShelfNumber shelf = shelf_number) (Shelves (db dm)))"

definition get_shelf_by_mac_address :: "DataManager \<Rightarrow> string \<Rightarrow> nat option" where
  "get_shelf_by_mac_address dm mac_address =
     (if \<not> shelf_exists_by_mac_address dm mac_address then None
      else find_index (\<lambda>shelf. Mac_Address shelf = mac_address) (Shelves (db dm)))"

definition get_mac_address_by_shelf_number :: "DataManager \<Rightarrow> int \<Rightarrow> string option" where
  "get_mac_address_by_shelf_number dm shelf_number =
     (if \<not> shelf_exists dm shelf_number then None
      else map_option Mac_Address
             (find (\<lambda>shelf. ShelfNumber shelf = shelf_number) (Shelves (db dm))))"

definition get_positions_by_shelf_number :: "DataManager \<Rightarrow> int \<Rightarrow> ShelfPosition list option" where
  "get_positions_by_shelf_number dm shelf_number =
     (if \<not> shelf_exists dm shelf_number then None
      else map_option (\<lambda>i. Positions (Shelves (db dm) ! i))
             (get_shelf_by_shelf_number dm shelf_number))"

text \<open>
  The reference to a position: the index of its shelf and its index among the positions
  of that shelf.
\<close>

definition get_position_by_shelf_number_and_position_id ::
  "DataManager \<Rightarrow> int \<Rightarrow> int \<Rightarrow> (nat \<times> nat) option" where
  "get_position_by_shelf_number_and_position_id dm shelf_number position_id =
     (if \<not> shelf_exists dm shelf_number then None
      else
        (case get_shelf_by_shelf_number dm shelf_number of
           None \<Rightarrow> None
         | Some i \<Rightarrow>
             map_option (\<lambda>j. (i, j))
               (find_index (\<lambda>position. PositionId position = position_id)
                  (Positions (Shelves (db dm) ! i)))))"

definition leds_exists :: "DataManager \<Rightarrow> int list \<Rightarrow> int \<Rightarrow> bool" where
  "leds_exists dm leds shelf_number =
     (if \<not> shelf_exists dm shelf_number then False
      else
        (case get_positions_by_shelf_number dm shelf_number of
           None \<Rightarrow> False
         | Some positions \<Rightarrow>
             list_ex (\<lambda>position. list_ex (\<lambda>led. led \<in> set (LEDs position)) leds) positions))"

definition leds_exists_exclusive :: "DataManager \<Rightarrow> ShelfPosition \<Rightarrow> bool" where
  "leds_exists_exclusive dm shelf_position =
     (if \<not> shelf_exists dm (pos_ShelfNumber shelf_position) then False
      else if \<not> position_id_exists dm (pos_ShelfNumber shelf_position) (PositionId shelf_position)
      then False
      else
        (case get_positions_by_shelf_number dm (pos_ShelfNumber shelf_position) of
           None \<Rightarrow> False
         | Some positions \<Rightarrow>
             list_ex (\<lambda>position. PositionId position \<noteq> PositionId shelf_position \<and>
                        list_ex (\<lambda>led. led \<in> set (LEDs position)) (LEDs shelf_position))
               positions))"

definition get_esp32_by_mac_address :: "DataManager \<Rightarrow> string \<Rightarrow> nat option" where
  "get_esp32_by_mac_address dm mac_address =
     (if \<not> mac_address_exists dm mac_address then None
      else find_index (\<lambda>esp32. esp_Mac_Address esp32 = mac_address) (ESP32s (db dm)))"

text \<open>Assignments through a reference: \<open>esp32.isUsed = v\<close>, \<open>esp32.isOnline = v\<close>.\<close>

definition assign_isUsed :: "nat \<Rightarrow> bool \<Rightarrow> DataManager \<Rightarrow> DataManager" where
  "assign_isUsed e v dm =
     dm\<lparr>db := (db dm)\<lparr>ESP32s := (ESP32s (db dm))[e := (ESP32s (db dm) ! e)\<lparr>isUsed := v\<rparr>]\<rparr>\<rparr>"

definition assign_isOnline :: "nat \<Rightarrow> bool \<Rightarrow> DataManager \<Rightarrow> DataManager" where
  "assign_isOnline e v dm =
     dm\<lparr>db := (db dm)\<lparr>ESP32s := (ESP32s (db dm))[e := (ESP32s (db dm) ! e)\<lparr>isOnline := v\<rparr>]\<rparr>\<rparr>"

definition assign_Shelves :: "Shelf list \<Rightarrow> DataManager \<Rightarrow> DataManager" where
  "assign_Shelves shelves dm = dm\<lparr>db := (db dm)\<lparr>Shelves := shelves\<rparr>\<rparr>"

text \<open>The positions of the shelf object at index \<open>i\<close> replaced.\<close>

definition assign_Positions :: "nat \<Rightarrow> ShelfPosition list \<Rightarrow> DataManager \<Rightarrow> DataManager" where
  "assign_Positions i positions dm =
     assign_Shelves ((Shelves (db dm))[i := (Shelves (db dm) ! i)\<lparr>Positions := positions\<rparr>]) dm"

definition add_shelf :: "DataManager \<Rightarrow> Shelf \<Rightarrow> bool \<times> DataManager" where
  "add_shelf dm shelf =
     (if shelf_exists dm (ShelfNumber shelf) then (False, dm)
      else
        (case get_esp32_by_mac_address dm (Mac_Address shelf) of
           None \<Rightarrow> (False, dm)
         | Some esp32 \<Rightarrow>
             if isUsed (ESP32s (db dm) ! esp32) then (False, dm)
             else
               (let dm1 = assign_isUsed esp32 True dm;
                    dm2 = assign_Shelves (Shelves (db dm1) @ [shelf]) dm1
                in (True, save_data dm2))))"

definition delete_shelf_by_shelf_number :: "DataManager \<Rightarrow> int \<Rightarrow> bool \<times> DataManager" where
  "delete_shelf_by_shelf_number dm shelf_number =
     (case get_shelf_by_shelf_number dm shelf_number of
        None \<Rightarrow> (False, dm)
      | Some i \<Rightarrow>
          (case get_mac_address_by_shelf_number dm shelf_number of
             None \<Rightarrow> (False, dm)
           | Some mac_address \<Rightarrow>
               (case get_esp32_by_mac_address dm mac_address of
                  None \<Rightarrow> (False, dm)
                | Some esp32 \<Rightarrow>
                    (let shelf = Shelves (db dm) ! i in
                     if shelf \<notin> set (Shelves (db dm)) then (False, dm)
                     else
                       (let dm1 = assign_Shelves (remove1 shelf (Shelves (db dm))) dm;
                            dm2 = assign_isUsed esp32 False dm1
                        in (True, save_data dm2))))))"

text \<open>
  \<open>add_position\<close>, \<open>update_position\<close> and \<open>delete_position\<close> get the \<open>Shelf\<close> as an object;
  every caller (the handlers of the Api and \<open>config_put\<close>) passes one it got from
  \<open>get_shelf_by_shelf_number\<close> or \<open>get_shelf_by_mac_address\<close>, so the argument \<open>shelf\<close> is
  a reference into the list of shelves.
\<close>

definition add_position :: "DataManager \<Rightarrow> nat \<Rightarrow> ShelfPosition \<Rightarrow> bool \<times> DataManager" where
  "add_position dm shelf shelf_position =
     (let the_shelf = Shelves (db dm) ! shelf in
      if \<not> shelf_exists dm (ShelfNumber the_shelf) then (False, dm)
      else if position_id_exists dm (ShelfNumber the_shelf) (PositionId shelf_position)
      then (False, dm)
      else if PositionId shelf_position > 255 \<or> PositionId shelf_position < 0 then (False, dm)
      else if LEDs shelf_position = [] then (False, dm)
      else if leds_exists dm (LEDs shelf_position) (pos_ShelfNumber shelf_position)
      then (False, dm)
      else
        (let new_position = shelf_position\<lparr>pos_ShelfNumber := ShelfNumber the_shelf\<rparr>;
             dm1 = assign_Positions shelf (Positions the_shelf @ [new_position]) dm
         in (True, save_data dm1)))"

text \<open>
  In \<open>update_position\<close> the position to change is looked up again by number and id; were the
  lookup to return \<open>None\<close>, the assignment to its field would raise \<open>AttributeError\<close>.
\<close>

definition update_position ::
  "DataManager \<Rightarrow> nat \<Rightarrow> ShelfPosition \<Rightarrow> (error + bool) \<times> DataManager" where
  "update_position dm shelf shelf_position =
     (let the_shelf = Shelves (db dm) ! shelf in
      if \<not> shelf_exists dm (ShelfNumber the_shelf) then (Inr False, dm)
      else if \<not> position_id_exists dm (ShelfNumber the_shelf) (PositionId shelf_position)
      then (Inr False, dm)
      else if LEDs shelf_position = [] then (Inr False, dm)
      else if leds_exists_exclusive dm shelf_position then (Inr False, dm)
      else
        (case get_position_by_shelf_number_and_position_id dm (ShelfNumber the_shelf)
                (PositionId shelf_position) of
           None \<Rightarrow> (Inl AttributeError, dm)
         | Some (i, j) \<Rightarrow>
             (let positions = Positions (Shelves (db dm) ! i);
                  position_to_be_updated =
                    (positions ! j)\<lparr>pos_ShelfNumber := ShelfNumber the_shelf,
                                     LEDs := LEDs shelf_position\<rparr>;
                  dm1 = assign_Positions i (positions[j := position_to_be_updated]) dm
              in (Inr True, save_data dm1))))"

definition delete_position :: "DataManager \<Rightarrow> nat \<Rightarrow> ShelfPosition \<Rightarrow> bool \<times> DataManager" where
  "delete_position dm shelf shelf_position =
     (let the_shelf = Shelves (db dm) ! shelf in
      if \<not> shelf_exists dm (ShelfNumber the_shelf) then (False, dm)
      else if \<not> position_id_exists dm (ShelfNumber the_shelf) (PositionId shelf_position)
      then (False, dm)
      else if shelf_position \<notin> set (Positions the_shelf) then (False, dm)
      else
        (let dm1 = assign_Positions shelf (remove1 shelf_position (Positions the_shelf)) dm
         in (True, save_data dm1)))"

definition add_esp32 :: "DataManager \<Rightarrow> ESP32 \<Rightarrow> bool \<times> DataManager" where
  "add_esp32 dm esp32 =
     (if mac_address_exists dm (esp_Mac_Address esp32) then (False, dm)
      else (True, save_data (dm\<lparr>db := (db dm)\<lparr>ESP32s := ESP32s (db dm) @ [esp32]\<rparr>\<rparr>)))"

definition set_all_esp32s_offline :: "DataManager \<Rightarrow> DataManager" where
  "set_all_esp32s_offline dm =
     dm\<lparr>db := (db dm)\<lparr>ESP32s := map (\<lambda>esp32. esp32\<lparr>isOnline := False\<rparr>) (ESP32s (db dm))\<rparr>\<rparr>"

text \<open>
  The constructor, for a path that ends in \<open>.json\<close>: \<open>file = Some d\<close> when the JSON file
  exists and parses to \<open>d\<close>, \<open>None\<close> when it does not exist (\<open>FileNotFoundError\<close>);
  \<open>backup\<close> is what the backup file held before.  This is the only place that calls
  \<open>save_backup_data\<close>.
\<close>

definition DataManager_init :: "DB option \<Rightarrow> DB option \<Rightarrow> DataManager" where
  "DataManager_init file backup =
     (case file of
        Some d \<Rightarrow>
          save_backup_data (save_data (set_all_esp32s_offline
            \<lparr>db = d, json_file = file, json_file_backup = backup\<rparr>))
      | None \<Rightarrow>
          save_backup_data (save_data
            \<lparr>db = \<lparr>Shelves = [], ESP32s = []\<rparr>, json_file = file, json_file_backup = backup\<rparr>))"

section \<open>The acknowledged publish (HttpToMqtt/Mqtt/__init__.py)\<close>

text \<open>
  The state of the \<open>Mqtt\<close> object: the \<open>DataManager\<close> it shares with the Api, its two
  queues of received ACKs, and the messages it has handed to \<open>client.publish\<close>, oldest
  first, each a topic and a payload.
\<close>

record Mqtt =
  data_manager :: DataManager
  config_ack_queue :: "ACK list"
  light_ack_queue :: "ACK list"
  client_published :: "(string \<times> byte list) list"

text \<open>
  What one call of \<open>publish_with_ack\<close> takes from outside.  \<open>random_draws\<close> are the results
  of its successive calls of \<open>random.randint(0, 255)\<close>, bytes by their range; \<open>clock_at_publish\<close>
  is the clock read after publishing (the \<open>timestamp\<close> of the code).  The loop that waits is run against \<open>polls\<close>: one
  entry for each evaluation of the loop condition, with the ACKs the callbacks
  \<open>receive_light_ack\<close> and \<open>receive_config_ack\<close> of the client's thread have appended to
  the two queues since the evaluation before, and the value \<open>time.time()\<close> returns if the
  body of the loop is entered.
\<close>

record poll =
  light_arrivals :: "ACK list"
  config_arrivals :: "ACK list"
  clock :: real

record environment =
  random_draws :: "byte list"
  clock_at_publish :: real
  polls :: "poll list"

datatype queue_ref = Light_ack_queue | Config_ack_queue

definition choose_queue :: "string \<Rightarrow> queue_ref option" where
  "choose_queue select_queue =
     (let queue = None;
          queue = (if select_queue = ''light_ack'' then Some Light_ack_queue else queue);
          queue = (if select_queue = ''config_ack'' then Some Config_ack_queue else queue)
      in queue)"

fun queue_of :: "queue_ref \<Rightarrow> Mqtt \<Rightarrow> ACK list" where
  "queue_of Light_ack_queue m = light_ack_queue m"
| "queue_of Config_ack_queue m = config_ack_queue m"

fun assign_queue :: "queue_ref \<Rightarrow> ACK list \<Rightarrow> Mqtt \<Rightarrow> Mqtt" where
  "assign_queue Light_ack_queue q m = m\<lparr>light_ack_queue := q\<rparr>"
| "assign_queue Config_ack_queue q m = m\<lparr>config_ack_queue := q\<rparr>"

text \<open>
  Drawing the id: the first draw that gives an ACK not in the queue.  \<open>None\<close>: the draws
  given are used up and the loop is still drawing.
\<close>

fun draw_ack_id :: "string \<Rightarrow> ACK list \<Rightarrow> byte list \<Rightarrow> byte option" where
  "draw_ack_id mac_address queue [] = None"
| "draw_ack_id mac_address queue (random_ack_id # draws) =
     (if \<lparr>ack_Mac_Address = mac_address, ACK_id = uint random_ack_id\<rparr> \<in> set queue
      then draw_ack_id mac_address queue draws
      else Some random_ack_id)"

definition deliver :: "poll \<Rightarrow> Mqtt \<Rightarrow> Mqtt" where
  "deliver p m =
     m\<lparr>light_ack_queue := light_ack_queue m @ light_arrivals p,
       config_ack_queue := config_ack_queue m @ config_arrivals p\<rparr>"

text \<open>
  The loop \<open>while outgoing_ack not in queue\<close>: the condition first, then the clock.
  \<open>None\<close>: the polls given are used up and the caller is still waiting.
\<close>

fun wait_for_ack ::
  "int \<Rightarrow> real \<Rightarrow> queue_ref \<Rightarrow> ACK \<Rightarrow> poll list \<Rightarrow> Mqtt \<Rightarrow> (int \<times> Mqtt) option" where
  "wait_for_ack timeout timestamp queue outgoing_ack [] m = None"
| "wait_for_ack timeout timestamp queue outgoing_ack (p # ps) m =
     (let m1 = deliver p m in
      if outgoing_ack \<in> set (queue_of queue m1)
      then Some (200, assign_queue queue (remove1 outgoing_ack (queue_of queue m1)) m1)
      else if clock p - timestamp > real_of_int timeout then Some (504, m1)
      else wait_for_ack timeout timestamp queue outgoing_ack ps m1)"

text \<open>
  The first half of \<open>publish_with_ack\<close>, up to and with \<open>client.publish\<close>: the choice of the
  queue (an exception for any other name), the id, the payload with the id in front.
\<close>

definition publish_with_ack_send ::
  "Mqtt \<Rightarrow> byte list \<Rightarrow> string \<Rightarrow> string \<Rightarrow> string \<Rightarrow> byte list
     \<Rightarrow> ((error + queue_ref \<times> ACK) \<times> Mqtt) option" where
  "publish_with_ack_send m draws mac_address select_queue topic payload =
     (case choose_queue select_queue of
        None \<Rightarrow> Some (Inl Exception, m)
      | Some queue \<Rightarrow>
          (case draw_ack_id mac_address (queue_of queue m) draws of
             None \<Rightarrow> None
           | Some random_ack_id \<Rightarrow>
               (let outgoing_ack =
                      \<lparr>ack_Mac_Address = mac_address, ACK_id = uint random_ack_id\<rparr>;
                    payload_with_ack_id = random_ack_id # payload
                in Some (Inr (queue, outgoing_ack),
                         m\<lparr>client_published :=
                             client_published m @ [(topic, payload_with_ack_id)]\<rparr>))))"

definition publish_with_ack ::
  "Mqtt \<Rightarrow> environment \<Rightarrow> int \<Rightarrow> string \<Rightarrow> string \<Rightarrow> string \<Rightarrow> byte list
     \<Rightarrow> ((error + int) \<times> Mqtt) option" where
  "publish_with_ack m env timeout mac_address select_queue topic payload =
     (case publish_with_ack_send m (random_draws env) mac_address select_queue topic payload of
        None \<Rightarrow> None
      | Some (Inl e, m1) \<Rightarrow> Some (Inl e, m1)
      | Some (Inr (queue, outgoing_ack), m1) \<Rightarrow>
          (case wait_for_ack timeout (clock_at_publish env) queue outgoing_ack (polls env) m1 of
             None \<Rightarrow> None
           | Some (status, m2) \<Rightarrow> Some (Inr status, m2)))"

subsection \<open>The callbacks of the client\<close>

fun split :: "char \<Rightarrow> string \<Rightarrow> string list" where
  "split sep [] = [[]]"
| "split sep (c # cs) =
     (if c = sep then [] # split sep cs
      else (case split sep cs of [] \<Rightarrow> [[c]] | w # ws \<Rightarrow> (c # w) # ws))"

text \<open>\<open>msg.topic.split('/')[1]\<close>; \<open>IndexError\<close> when the topic has no second part.\<close>

definition topic_mac_address :: "string \<Rightarrow> string option" where
  "topic_mac_address topic =
     (case split CHR ''/'' topic of
        _ # mac_address # _ \<Rightarrow> Some mac_address
      | _ \<Rightarrow> None)"

text \<open>\<open>receive_ack\<close>, on the queue it is given: the ACK of the message appended.\<close>

definition receive_ack :: "string \<Rightarrow> byte list \<Rightarrow> ACK list \<Rightarrow> error + ACK list" where
  "receive_ack topic payload queue =
     (case topic_mac_address topic of
        None \<Rightarrow> Inl IndexError
      | Some mac_address \<Rightarrow>
          (case payload of
             [] \<Rightarrow> Inl IndexError
           | b # _ \<Rightarrow> Inr (queue @ [\<lparr>ack_Mac_Address = mac_address, ACK_id = uint b\<rparr>])))"

definition config_put :: "Mqtt \<Rightarrow> string \<Rightarrow> byte list \<Rightarrow> (error + bool) \<times> Mqtt" where
  "config_put m topic payload =
     (case topic_mac_address topic of
        None \<Rightarrow> (Inl IndexError, m)
      | Some mac_address \<Rightarrow>
          (case get_shelf_by_mac_address (data_manager m) mac_address of
             None \<Rightarrow> (Inr False, m)
           | Some shelf \<Rightarrow>
               (case payload of
                  [] \<Rightarrow> (Inl IndexError, m)
                | b # bs \<Rightarrow>
                    (let position_id = uint b;
                         leds = map uint bs
                     in if leds = [] then (Inr False, m)
                        else
                          (let shelf_position =
                                 \<lparr>pos_ShelfNumber =
                                    ShelfNumber (Shelves (db (data_manager m)) ! shelf),
                                  PositionId = position_id, LEDs = leds\<rparr>;
                               (added, dm1) = add_position (data_manager m) shelf shelf_position
                           in (Inr added, m\<lparr>data_manager := dm1\<rparr>))))))"

definition receive_register :: "Mqtt \<Rightarrow> string \<Rightarrow> Mqtt" where
  "receive_register m incoming_mac_address =
     (case get_esp32_by_mac_address (data_manager m) incoming_mac_address of
        Some esp32 \<Rightarrow> m\<lparr>data_manager := save_data (assign_isOnline esp32 True (data_manager m))\<rparr>
      | None \<Rightarrow>
          m\<lparr>data_manager :=
              snd (add_esp32 (data_manager m)
                     \<lparr>esp_Mac_Address = incoming_mac_address, isUsed = False,
                      isOnline = True\<rparr>)\<rparr>)"

section \<open>The handlers of the Api (HttpToMqtt/Api/__init__.py)\<close>

text \<open>
  A handler runs on the state of the \<open>Mqtt\<close> object, which holds the \<open>DataManager\<close> the
  Api uses too, and returns the status code of the response (the text of the response is
  left out), or the exception that ends it.  \<open>None\<close>: the exchange with the device has
  not ended within the draws and polls given.
\<close>

definition TIMEOUT :: int where
  "TIMEOUT = 5"

text \<open>\<open>bytearray(list_of_int)\<close>: \<open>ValueError\<close>, here \<open>None\<close>, unless every value is in 0..255.\<close>

definition bytearray :: "int list \<Rightarrow> byte list option" where
  "bytearray xs =
     (if list_all (\<lambda>x. 0 \<le> x \<and> x < 256) xs then Some (map word_of_int xs) else None)"

record DeletePosition =
  del_ShelfNumber :: int
  del_PositionId :: int

definition validate_shelf :: "int \<Rightarrow> nat option \<Rightarrow> int" where
  "validate_shelf position_id shelf =
     (if shelf = None then 404
      else if position_id > 255 \<or> position_id < 0 then 400
      else 200)"

definition publish_create_update_position ::
  "Mqtt \<Rightarrow> environment \<Rightarrow> ShelfPosition \<Rightarrow> string \<Rightarrow> bool \<Rightarrow> ((error + int) \<times> Mqtt) option" where
  "publish_create_update_position m env shelf_position mac_address create =
     (case bytearray (PositionId shelf_position # LEDs shelf_position) of
        None \<Rightarrow> Some (Inl ValueError, m)
      | Some payload \<Rightarrow>
          if create
          then publish_with_ack m env TIMEOUT mac_address ''config_ack''
                 (''pbl/'' @ mac_address @ ''/config/create_Position'') payload
          else publish_with_ack m env TIMEOUT mac_address ''config_ack''
                 (''pbl/'' @ mac_address @ ''/config/update_Position'') payload)"

subsection \<open>createPosition\<close>

text \<open>
  The checks of \<open>create_position\<close> before the device is contacted: the status of the
  rejection, or the address of the device and the reference to the shelf.
\<close>

definition create_position_validate :: "DataManager \<Rightarrow> ShelfPosition \<Rightarrow> int + string \<times> nat" where
  "create_position_validate dm shelf_position =
     (case get_mac_address_by_shelf_number dm (pos_ShelfNumber shelf_position) of
        None \<Rightarrow> Inl 404
      | Some mac_address \<Rightarrow>
          if position_id_exists dm (pos_ShelfNumber shelf_position) (PositionId shelf_position)
          then Inl 406
          else
            (let shelf = get_shelf_by_shelf_number dm (pos_ShelfNumber shelf_position) in
             if validate_shelf (PositionId shelf_position) shelf \<noteq> 200
             then Inl (validate_shelf (PositionId shelf_position) shelf)
             else
               (let shelf = get_shelf_by_shelf_number dm (pos_ShelfNumber shelf_position) in
                if validate_shelf (PositionId shelf_position) shelf \<noteq> 200
                then Inl (validate_shelf (PositionId shelf_position) shelf)
                else if leds_exists dm (LEDs shelf_position) (pos_ShelfNumber shelf_position)
                then Inl 406
                else (case shelf of None \<Rightarrow> Inl 404 | Some i \<Rightarrow> Inr (mac_address, i)))))"

definition create_position ::
  "Mqtt \<Rightarrow> environment \<Rightarrow> ShelfPosition \<Rightarrow> ((error + int) \<times> Mqtt) option" where
  "create_position m env shelf_position =
     (case create_position_validate (data_manager m) shelf_position of
        Inl status_code \<Rightarrow> Some (Inr status_code, m)
      | Inr (mac_address, shelf) \<Rightarrow>
          (case publish_create_update_position m env shelf_position mac_address True of
             None \<Rightarrow> None
           | Some (Inl e, m1) \<Rightarrow> Some (Inl e, m1)
           | Some (Inr status_code, m1) \<Rightarrow>
               if status_code = 504 then Some (Inr 504, m1)
               else if status_code = 200
               then (case add_position (data_manager m1) shelf shelf_position of
                       (True, dm1) \<Rightarrow> Some (Inr 200, m1\<lparr>data_manager := dm1\<rparr>)
                     | (False, dm1) \<Rightarrow> Some (Inr 406, m1\<lparr>data_manager := dm1\<rparr>))
               else Some (Inr 500, m1)))"

subsection \<open>updatePosition\<close>

definition update_position_validate :: "DataManager \<Rightarrow> ShelfPosition \<Rightarrow> int + string \<times> nat" where
  "update_position_validate dm shelf_position =
     (case get_mac_address_by_shelf_number dm (pos_ShelfNumber shelf_position) of
        None \<Rightarrow> Inl 404
      | Some mac_address \<Rightarrow>
          if \<not> position_id_exists dm (pos_ShelfNumber shelf_position) (PositionId shelf_position)
          then Inl 406
          else
            (let shelf = get_shelf_by_shelf_number dm (pos_ShelfNumber shelf_position) in
             if validate_shelf (PositionId shelf_position) shelf \<noteq> 200
             then Inl (validate_shelf (PositionId shelf_position) shelf)
             else if leds_exists_exclusive dm shelf_position then Inl 406
             else (case shelf of None \<Rightarrow> Inl 404 | Some i \<Rightarrow> Inr (mac_address, i))))"

definition update_position_handler ::
  "Mqtt \<Rightarrow> environment \<Rightarrow> ShelfPosition \<Rightarrow> ((error + int) \<times> Mqtt) option" where
  "update_position_handler m env shelf_position =
     (case update_position_validate (data_manager m) shelf_position of
        Inl status_code \<Rightarrow> Some (Inr status_code, m)
      | Inr (mac_address, shelf) \<Rightarrow>
          (case publish_create_update_position m env shelf_position mac_address False of
             None \<Rightarrow> None
           | Some (Inl e, m1) \<Rightarrow> Some (Inl e, m1)
           | Some (Inr status_code, m1) \<Rightarrow>
               if status_code = 504 then Some (Inr 504, m1)
               else if status_code = 200
               then (case update_position (data_manager m1) shelf shelf_position of
                       (Inl e, dm1) \<Rightarrow> Some (Inl e, m1\<lparr>data_manager := dm1\<rparr>)
                     | (Inr True, dm1) \<Rightarrow> Some (Inr 200, m1\<lparr>data_manager := dm1\<rparr>)
                     | (Inr False, dm1) \<Rightarrow> Some (Inr 406, m1\<lparr>data_manager := dm1\<rparr>))
               else Some (Inr 500, m1)))"

subsection \<open>deletePosition\<close>

text \<open>
  Past its checks, \<open>delete_position\<close> holds the address of the device, the reference to
  the shelf and the position to delete, as it stands in the database.
\<close>

definition delete_position_validate ::
  "DataManager \<Rightarrow> DeletePosition \<Rightarrow> int + string \<times> nat \<times> ShelfPosition" where
  "delete_position_validate dm shelf_position =
     (case get_mac_address_by_shelf_number dm (del_ShelfNumber shelf_position) of
        None \<Rightarrow> Inl 404
      | Some mac_address \<Rightarrow>
          if \<not> position_id_exists dm (del_ShelfNumber shelf_position)
                 (del_PositionId shelf_position)
          then Inl 406
          else
            (let shelf = get_shelf_by_shelf_number dm (del_ShelfNumber shelf_position) in
             if validate_shelf (del_PositionId shelf_position) shelf \<noteq> 200
             then Inl (validate_shelf (del_PositionId shelf_position) shelf)
             else
               (case shelf of
                  None \<Rightarrow> Inl 404
                | Some i \<Rightarrow>
                    (case get_position_by_shelf_number_and_position_id dm
                            (ShelfNumber (Shelves (db dm) ! i)) (del_PositionId shelf_position) of
                       None \<Rightarrow> Inl 404
                     | Some (i', j) \<Rightarrow>
                         Inr (mac_address, i, Positions (Shelves (db dm) ! i') ! j)))))"

definition delete_position_handler ::
  "Mqtt \<Rightarrow> environment \<Rightarrow> DeletePosition \<Rightarrow> ((error + int) \<times> Mqtt) option" where
  "delete_position_handler m env shelf_position =
     (case delete_position_validate (data_manager m) shelf_position of
        Inl status_code \<Rightarrow> Some (Inr status_code, m)
      | Inr (mac_address, shelf, shelf_position_to_be_deleted) \<Rightarrow>
          (case bytearray [PositionId shelf_position_to_be_deleted] of
             None \<Rightarrow> Some (Inl ValueError, m)
           | Some payload \<Rightarrow>
               (case publish_with_ack m env TIMEOUT mac_address ''config_ack''
                       (''pbl/'' @ mac_address @ ''/config/delete_Position'') payload of
                  None \<Rightarrow> None
                | Some (Inl e, m1) \<Rightarrow> Some (Inl e, m1)
                | Some (Inr status_code, m1) \<Rightarrow>
                    if status_code = 504 then Some (Inr 504, m1)
                    else if status_code = 200
                    then (case delete_position (data_manager m1) shelf
                                 shelf_position_to_be_deleted of
                            (True, dm1) \<Rightarrow> Some (Inr 200, m1\<lparr>data_manager := dm1\<rparr>)
                          | (False, dm1) \<Rightarrow> Some (Inr 406, m1\<lparr>data_manager := dm1\<rparr>))
                    else Some (Inr 500, m1))))"

subsection \<open>deleteShelf and createShelf\<close>

definition delete_shelf_validate :: "DataManager \<Rightarrow> int \<Rightarrow> int + nat" where
  "delete_shelf_validate dm shelf_number =
     (let shelf = get_shelf_by_shelf_number dm shelf_number in
      if \<not> shelf_exists dm shelf_number \<or> shelf = None then Inl 404
      else (case shelf of None \<Rightarrow> Inl 404 | Some i \<Rightarrow> Inr i))"

definition delete_shelf :: "Mqtt \<Rightarrow> environment \<Rightarrow> int \<Rightarrow> ((error + int) \<times> Mqtt) option" where
  "delete_shelf m env shelf_number =
     (case delete_shelf_validate (data_manager m) shelf_number of
        Inl status_code \<Rightarrow> Some (Inr status_code, m)
      | Inr i \<Rightarrow>
          (let shelf = Shelves (db (data_manager m)) ! i in
           case publish_with_ack m env (TIMEOUT + 20) (Mac_Address shelf) ''config_ack''
                  (''pbl/'' @ Mac_Address shelf @ ''/config/reset'') [] of
             None \<Rightarrow> None
           | Some (Inl e, m1) \<Rightarrow> Some (Inl e, m1)
           | Some (Inr status_code, m1) \<Rightarrow>
               if status_code = 504 then Some (Inr 504, m1)
               else if status_code = 200
               then (case delete_shelf_by_shelf_number (data_manager m1) (ShelfNumber shelf) of
                       (True, dm1) \<Rightarrow> Some (Inr 200, m1\<lparr>data_manager := dm1\<rparr>)
                     | (False, dm1) \<Rightarrow> Some (Inr 406, m1\<lparr>data_manager := dm1\<rparr>))
               else Some (Inr 500, m1)))"

definition create_shelf :: "Mqtt \<Rightarrow> Shelf \<Rightarrow> int \<times> Mqtt" where
  "create_shelf m shelf =
     (let dm = data_manager m in
      if shelf_exists dm (ShelfNumber shelf) then (406, m)
      else if \<not> mac_address_exists dm (Mac_Address shelf) then (404, m)
      else
        (case get_esp32_by_mac_address dm (Mac_Address shelf) of
           None \<Rightarrow> (404, m)
         | Some esp32 \<Rightarrow>
             if isUsed (ESP32s (db dm) ! esp32) then (406, m)
             else (case add_shelf dm shelf of
                     (True, dm1) \<Rightarrow> (200, m\<lparr>data_manager := dm1\<rparr>)
                   | (False, dm1) \<Rightarrow> (500, m\<lparr>data_manager := dm1\<rparr>))))"

subsection \<open>getESP32\<close>

text \<open>
  The second branch of \<open>get_esp32_config\<close>, taken when no shelf has the number: the handler
  itself clears \<open>isUsed\<close> of the device, then adds the new shelf.
\<close>

definition get_esp32_config_new_shelf ::
  "Mqtt \<Rightarrow> environment \<Rightarrow> string \<Rightarrow> int \<Rightarrow> nat \<Rightarrow> ((error + int) \<times> Mqtt) option" where
  "get_esp32_config_new_shelf m env mac_address shelf_number esp32 =
     (let dm = data_manager m;
          dm1 = (if isUsed (ESP32s (db dm) ! esp32) then assign_isUsed esp32 False dm else dm);
          set_used = (\<lambda>dm. if \<not> isUsed (ESP32s (db dm) ! esp32)
                            then assign_isUsed esp32 True dm else dm)
      in case add_shelf dm1
                \<lparr>ShelfNumber = shelf_number, Mac_Address = mac_address, Positions = []\<rparr> of
           (True, dm2) \<Rightarrow>
             (case publish_with_ack (m\<lparr>data_manager := dm2\<rparr>) env TIMEOUT mac_address
                     ''config_ack'' (''pbl/'' @ mac_address @ ''/config/get'') [] of
                None \<Rightarrow> None
              | Some (Inl e, m1) \<Rightarrow> Some (Inl e, m1)
              | Some (Inr status_code, m1) \<Rightarrow>
                  if status_code = 504 then Some (Inr 504, m1)
                  else if status_code = 200 then Some (Inr 200, m1)
                  else Some (Inr 400, m1\<lparr>data_manager := set_used (data_manager m1)\<rparr>))
         | (False, dm2) \<Rightarrow> Some (Inr 400, m\<lparr>data_manager := set_used dm2\<rparr>))"

definition get_esp32_config ::
  "Mqtt \<Rightarrow> environment \<Rightarrow> string \<Rightarrow> int \<Rightarrow> ((error + int) \<times> Mqtt) option" where
  "get_esp32_config m env mac_address shelf_number =
     (let dm = data_manager m in
      if \<not> mac_address_exists dm mac_address then Some (Inr 404, m)
      else
        (case get_esp32_by_mac_address dm mac_address of
           None \<Rightarrow> Some (Inl AttributeError, m)
         | Some esp32 \<Rightarrow>
             (let rest = (\<lambda>m. if \<not> shelf_exists (data_manager m) shelf_number
                              then get_esp32_config_new_shelf m env mac_address shelf_number esp32
                              else Some (Inr 400, m))
              in if Some mac_address = get_mac_address_by_shelf_number dm shelf_number
                 then
                   (case delete_shelf_by_shelf_number dm shelf_number of
                      (True, dm1) \<Rightarrow>
                        (case add_shelf dm1
                                \<lparr>ShelfNumber = shelf_number, Mac_Address = mac_address,
                                 Positions = []\<rparr> of
                           (True, dm2) \<Rightarrow>
                             (case publish_with_ack (m\<lparr>data_manager := dm2\<rparr>) env TIMEOUT
                                     mac_address ''config_ack''
                                     (''pbl/'' @ mac_address @ ''/config/get'') [] of
                                None \<Rightarrow> None
                              | Some (Inl e, m1) \<Rightarrow> Some (Inl e, m1)
                              | Some (Inr status_code, m1) \<Rightarrow>
                                  if status_code = 504 then Some (Inr 504, m1)
                                  else if status_code = 200 then Some (Inr 200, m1)
                                  else Some (Inr 400, m1))
                         | (False, dm2) \<Rightarrow> Some (Inr 400, m\<lparr>data_manager := dm2\<rparr>))
                    | (False, dm1) \<Rightarrow> rest (m\<lparr>data_manager := dm1\<rparr>))
                 else rest m)))"

subsection \<open>The four requests that change a shelf or a position through the device\<close>

datatype request =
    CreatePosition ShelfPosition
  | UpdatePosition ShelfPosition
  | DeletePosition DeletePosition
  | DeleteShelf int

fun handle :: "Mqtt \<Rightarrow> environment \<Rightarrow> request \<Rightarrow> ((error + int) \<times> Mqtt) option" where
  "handle m env (CreatePosition shelf_position) = create_position m env shelf_position"
| "handle m env (UpdatePosition shelf_position) = update_position_handler m env shelf_position"
| "handle m env (DeletePosition shelf_position) = delete_position_handler m env shelf_position"
| "handle m env (DeleteShelf shelf_number) = delete_shelf m env shelf_number"

text \<open>
  The exchange with the device that the handler of a request performs, and what it
  returns: \<open>None\<close> when the request is rejected before the device is contacted.
\<close>

fun device_exchange ::
  "Mqtt \<Rightarrow> environment \<Rightarrow> request \<Rightarrow> ((error + int) \<times> Mqtt) option option" where
  "device_exchange m env (CreatePosition shelf_position) =
     (case create_position_validate (data_manager m) shelf_position of
        Inl status_code \<Rightarrow> None
      | Inr (mac_address, shelf) \<Rightarrow>
          Some (publish_create_update_position m env shelf_position mac_address True))"
| "device_exchange m env (UpdatePosition shelf_position) =
     (case update_position_validate (data_manager m) shelf_position of
        Inl status_code \<Rightarrow> None
      | Inr (mac_address, shelf) \<Rightarrow>
          Some (publish_create_update_position m env shelf_position mac_address False))"
| "device_exchange m env (DeletePosition shelf_position) =
     (case delete_position_validate (data_manager m) shelf_position of
        Inl status_code \<Rightarrow> None
      | Inr (mac_address, shelf, shelf_position_to_be_deleted) \<Rightarrow>
          (case bytearray [PositionId shelf_position_to_be_deleted] of
             None \<Rightarrow> None
           | Some payload \<Rightarrow>
               Some (publish_with_ack m env TIMEOUT mac_address ''config_ack''
                       (''pbl/'' @ mac_address @ ''/config/delete_Position'') payload)))"
| "device_exchange m env (DeleteShelf shelf_number) =
     (case delete_shelf_validate (data_manager m) shelf_number of
        Inl status_code \<Rightarrow> None
      | Inr i \<Rightarrow>
          Some (publish_with_ack m env (TIMEOUT + 20)
                  (Mac_Address (Shelves (db (data_manager m)) ! i)) ''config_ack''
                  (''pbl/'' @ Mac_Address (Shelves (db (data_manager m)) ! i) @ ''/config/reset'')
                  []))"

section \<open>Mutations and example states\<close>

text \<open>
  The five mutating operations of the \<open>DataManager\<close> on shelves and positions under one
  type, with the success flag each returns (\<open>update_position\<close> raising counts as no
  success).
\<close>

datatype mutation =
    Add_shelf Shelf
  | Delete_shelf int
  | Add_position nat ShelfPosition
  | Update_position nat ShelfPosition
  | Delete_position nat ShelfPosition

fun mutate :: "DataManager \<Rightarrow> mutation \<Rightarrow> bool \<times> DataManager" where
  "mutate dm (Add_shelf shelf) = add_shelf dm shelf"
| "mutate dm (Delete_shelf shelf_number) = delete_shelf_by_shelf_number dm shelf_number"
| "mutate dm (Add_position shelf shelf_position) = add_position dm shelf shelf_position"
| "mutate dm (Update_position shelf shelf_position) =
     (case update_position dm shelf shelf_position of
        (Inl e, dm') \<Rightarrow> (False, dm')
      | (Inr r, dm') \<Rightarrow> (r, dm'))"
| "mutate dm (Delete_position shelf shelf_position) = delete_position dm shelf shelf_position"

text \<open>The device, shelf and position of the scenario of the specification.\<close>

definition example_esp32 :: ESP32 where
  "example_esp32 = \<lparr>esp_Mac_Address = ''AA:BB:CC:DD:EE:01'', isUsed = False, isOnline = True\<rparr>"

definition example_shelf :: Shelf where
  "example_shelf = \<lparr>ShelfNumber = 7, Mac_Address = ''AA:BB:CC:DD:EE:01'', Positions = []\<rparr>"

definition example_position :: ShelfPosition where
  "example_position = \<lparr>pos_ShelfNumber = 7, PositionId = 3, LEDs = [10, 20]\<rparr>"

definition dm_registered :: DataManager where
  "dm_registered =
     snd (add_esp32 (DataManager_init None None) example_esp32)"

definition dm_with_shelf :: DataManager where
  "dm_with_shelf = snd (add_shelf dm_registered example_shelf)"

section \<open>Outcomes of an exchange, and example exchanges\<close>

text \<open>
  The ACKs a poll brings to a queue, and the two courses a wait can take.
  \<open>delivered_in_time\<close>: the ACK arrives at some poll, and no poll before it has read the
  clock more than \<open>timeout\<close> past the timestamp.  \<open>timed_out\<close>: some poll reads the clock
  more than \<open>timeout\<close> past the timestamp, no poll before it did, and the ACK has not
  arrived up to and with that poll.
\<close>

fun arrivals :: "queue_ref \<Rightarrow> poll \<Rightarrow> ACK list" where
  "arrivals Light_ack_queue p = light_arrivals p"
| "arrivals Config_ack_queue p = config_arrivals p"

definition delivered_in_time :: "int \<Rightarrow> real \<Rightarrow> queue_ref \<Rightarrow> ACK \<Rightarrow> poll list \<Rightarrow> bool" where
  "delivered_in_time timeout t0 queue ack ps =
     list_ex (\<lambda>k. ack \<in> set (arrivals queue (ps ! k)) \<and>
                 list_all (\<lambda>p. \<not> clock p - t0 > real_of_int timeout) (take k ps))
       [0..<length ps]"

definition timed_out :: "int \<Rightarrow> real \<Rightarrow> queue_ref \<Rightarrow> ACK \<Rightarrow> poll list \<Rightarrow> bool" where
  "timed_out timeout t0 queue ack ps =
     list_ex (\<lambda>k. clock (ps ! k) - t0 > real_of_int timeout \<and>
                 list_all (\<lambda>p. \<not> clock p - t0 > real_of_int timeout) (take k ps) \<and>
                 list_all (\<lambda>p. ack \<notin> set (arrivals queue p)) (take (Suc k) ps))
       [0..<length ps]"

text \<open>
  Example states and environments: no ACK queued and nothing published; a device that
  does not answer within the timeout; a device that answers at the second poll.
\<close>

definition mqtt_example :: Mqtt where
  "mqtt_example =
     \<lparr>data_manager = dm_with_shelf, config_ack_queue = [], light_ack_queue = [],
      client_published = []\<rparr>"

definition example_ack :: ACK where
  "example_ack = \<lparr>ack_Mac_Address = ''AA:BB:CC:DD:EE:01'', ACK_id = 7\<rparr>"

definition env_no_reply :: environment where
  "env_no_reply =
     \<lparr>random_draws = [7], clock_at_publish = 0,
      polls = [\<lparr>light_arrivals = [], config_arrivals = [], clock = 6\<rparr>]\<rparr>"

definition env_reply :: environment where
  "env_reply =
     \<lparr>random_draws = [7], clock_at_publish = 0,
      polls = [\<lparr>light_arrivals = [], config_arrivals = [], clock = 1\<rparr>,
               \<lparr>light_arrivals = [], config_arrivals = [example_ack], clock = 2\<rparr>]\<rparr>"

definition mqtt_one_outstanding :: Mqtt where
  "mqtt_one_outstanding =
     mqtt_example\<lparr>client_published := [(''pbl/AA:BB:CC:DD:EE:01/light/set'', [7, 10, 255, 0, 255])]\<rparr>"

text \<open>
  A second shelf for the device of the example, and the state in which both shelves are
  bound to it.
\<close>

definition second_shelf :: Shelf where
  "second_shelf = \<lparr>ShelfNumber = 8, Mac_Address = ''AA:BB:CC:DD:EE:01'', Positions = []\<rparr>"

definition mqtt_double_assigned :: Mqtt where
  "mqtt_double_assigned =
     \<lparr>data_manager =
        \<lparr>db = \<lparr>Shelves = [example_shelf, second_shelf],
               ESP32s = [example_esp32\<lparr>isUsed := True\<rparr>]\<rparr>,
         json_file = Some \<lparr>Shelves = [example_shelf, second_shelf],
                          ESP32s = [example_esp32\<lparr>isUsed := True\<rparr>]\<rparr>,
         json_file_backup = Some \<lparr>Shelves = [], ESP32s = []\<rparr>\<rparr>,
      config_ack_queue = [], light_ack_queue = [],
      client_published = [(''pbl/AA:BB:CC:DD:EE:01/config/get'', [7])]\<rparr>"

section \<open>The invariant of shelves and positions\<close>

text \<open>
  Two positions are LED-disjoint when no LED is in both.  The positions of a shelf are
  in order when their ids are distinct and they are pairwise LED-disjoint (\<open>sorted_wrt\<close>
  of a symmetric relation: every two positions at different places of the list).  The
  inventory is in order when the numbers of its shelves are distinct and the positions
  of every shelf are in order.
\<close>

definition leds_disjoint :: "ShelfPosition \<Rightarrow> ShelfPosition \<Rightarrow> bool" where
  "leds_disjoint p q = (set (LEDs p) \<inter> set (LEDs q) = {})"

definition positions_disjoint :: "ShelfPosition list \<Rightarrow> bool" where
  "positions_disjoint ps = sorted_wrt leds_disjoint ps"

definition positions_ok :: "ShelfPosition list \<Rightarrow> bool" where
  "positions_ok ps = (distinct (map PositionId ps) \<and> positions_disjoint ps)"

definition inventory_inv :: "DB \<Rightarrow> bool" where
  "inventory_inv d =
     (distinct (map ShelfNumber (Shelves d)) \<and>
      list_all (\<lambda>shelf. positions_ok (Positions shelf)) (Shelves d))"

text \<open>A shelf that comes with two positions on the same LED, and a state to create it in.\<close>

definition overlapping_shelf :: Shelf where
  "overlapping_shelf =
     \<lparr>ShelfNumber = 9, Mac_Address = ''AA:BB:CC:DD:EE:01'',
      Positions = [\<lparr>pos_ShelfNumber = 9, PositionId = 1, LEDs = [5]\<rparr>,
                   \<lparr>pos_ShelfNumber = 9, PositionId = 2, LEDs = [5]\<rparr>]\<rparr>"

definition mqtt_registered :: Mqtt where
  "mqtt_registered =
     \<lparr>data_manager = dm_registered, config_ack_queue = [], light_ack_queue = [],
      client_published = []\<rparr>"

text \<open>
  One call of \<open>add_position\<close>, \<open>update_position\<close> or \<open>delete_position\<close>, made the way the
  handlers of the Api make it: for the shelf that the database holds under the shelf
  number of the position (for \<open>delete_position\<close>, for a shelf of the database).
\<close>

inductive position_call :: "DataManager \<Rightarrow> DataManager \<Rightarrow> bool" where
  add:
    "get_shelf_by_shelf_number dm (pos_ShelfNumber shelf_position) = Some shelf \<Longrightarrow>
     add_position dm shelf shelf_position = (r, dm') \<Longrightarrow> position_call dm dm'"
| update:
    "get_shelf_by_shelf_number dm (pos_ShelfNumber shelf_position) = Some shelf \<Longrightarrow>
     update_position dm shelf shelf_position = (r', dm') \<Longrightarrow> position_call dm dm'"
| delete:
    "shelf < length (Shelves (db dm)) \<Longrightarrow>
     delete_position dm shelf shelf_position = (r, dm') \<Longrightarrow> position_call dm dm'"

definition dm_with_position :: DataManager where
  "dm_with_position = snd (add_position dm_with_shelf 0 example_position)"

text \<open>
  The assignment of devices is in order when no two devices have the same address, no
  two shelves reference the same address, and every shelf references the address of a
  device that is marked as used.
\<close>

definition assignment_inv :: "DB \<Rightarrow> bool" where
  "assignment_inv d =
     (distinct (map esp_Mac_Address (ESP32s d)) \<and>
      distinct (map Mac_Address (Shelves d)) \<and>
      list_all (\<lambda>shelf. list_ex (\<lambda>esp32. esp_Mac_Address esp32 = Mac_Address shelf \<and> isUsed esp32)
                         (ESP32s d))
        (Shelves d))"

section \<open>Further example states and timed schedules\<close>

text \<open>
  The queue that holds an ACK of the device for every id from 0 to 255, as 256 messages
  on the ack topic leave it; a state with one ACK left in the queue of the class
  \<open>config\<close>; draws that hit the id of that ACK first.
\<close>

definition all_ids_queue :: "string \<Rightarrow> ACK list" where
  "all_ids_queue mac_address =
     map (\<lambda>i. \<lparr>ack_Mac_Address = mac_address, ACK_id = int i\<rparr>) [0..<256]"

definition mqtt_all_ids_queued :: Mqtt where
  "mqtt_all_ids_queued = mqtt_example\<lparr>light_ack_queue := all_ids_queue ''AA:BB:CC:DD:EE:01''\<rparr>"

definition mqtt_stale_ack :: Mqtt where
  "mqtt_stale_ack = mqtt_example\<lparr>config_ack_queue := [example_ack]\<rparr>"

definition env_redraw :: environment where
  "env_redraw =
     \<lparr>random_draws = [7, 9], clock_at_publish = 0,
      polls = [\<lparr>light_arrivals = [], config_arrivals = [], clock = 1\<rparr>,
               \<lparr>light_arrivals = [],
                config_arrivals = [\<lparr>ack_Mac_Address = ''AA:BB:CC:DD:EE:01'', ACK_id = 9\<rparr>],
                clock = 2\<rparr>]\<rparr>"












text \<open>
  A second position for the shelf of the example; a new version of the first position
  that keeps one of its LEDs; a position that names a shelf number no shelf has.
\<close>

definition second_position :: ShelfPosition where
  "second_position = \<lparr>pos_ShelfNumber = 7, PositionId = 4, LEDs = [30]\<rparr>"

definition updated_position :: ShelfPosition where
  "updated_position = \<lparr>pos_ShelfNumber = 7, PositionId = 3, LEDs = [20, 21]\<rparr>"

definition stray_position :: ShelfPosition where
  "stray_position = \<lparr>pos_ShelfNumber = 99, PositionId = 4, LEDs = [10]\<rparr>"

definition dm_two_positions :: DataManager where
  "dm_two_positions = snd (add_position dm_with_position 0 second_position)"

section \<open>Colour parsing\<close>

text \<open>
  C8.  The claim: \<open>color_string_to_byte_array s\<close> returns the three bytes exactly when \<open>s\<close>
  is a seven-character string \<open>#RRGGBB\<close>, and \<open>None\<close> for every other string.  The code
  matches a prefix only: on the nine-character string \<open>#FF00FFzz\<close>, which is not of the
  documented format, it returns the bytes 255, 0, 255 instead of \<open>None\<close>.
\<close>

theorem color_string_trailing_characters_accepted:
  "color_string_to_byte_array ''#FF00FFzz'' = Some [255, 0, 255]"
  by (simp add: color_string_to_byte_array_def re_match_color_def is_hex_digit_def upper_def
      upper_char_def hex_value_def)

lemma color_string_well_formed_example:
  "color_string_to_byte_array ''#ff00fF'' = Some [255, 0, 255]"
  by (simp add: color_string_to_byte_array_def re_match_color_def is_hex_digit_def upper_def
      upper_char_def hex_value_def)

lemma color_string_rejected_example:
  "color_string_to_byte_array ''FF00FF'' = None"
  by (simp add: color_string_to_byte_array_def re_match_color_def)

text \<open>What the code accepts is any string that \<^emph>\<open>begins\<close> with a colour.\<close>

lemma hex_value_upper_char:
  "is_hex_digit c \<Longrightarrow> \<exists>v. hex_value (upper_char c) = Some v"
  unfolding is_hex_digit_def
  by (simp, elim disjE; simp add: hex_value_def upper_char_def)

lemma fromhex_six:
  assumes "list_all is_hex_digit [a, b, c, d, e, f]"
  shows "\<exists>x y z. fromhex (upper [a, b, c, d, e, f]) = Some [x, y, z]"
proof -
  from assms have "is_hex_digit a" "is_hex_digit b" "is_hex_digit c"
    "is_hex_digit d" "is_hex_digit e" "is_hex_digit f"
    by simp_all
  then obtain va vb vc vd ve vf where
    "hex_value (upper_char a) = Some va" "hex_value (upper_char b) = Some vb"
    "hex_value (upper_char c) = Some vc" "hex_value (upper_char d) = Some vd"
    "hex_value (upper_char e) = Some ve" "hex_value (upper_char f) = Some vf"
    using hex_value_upper_char by meson
  then show ?thesis by (simp add: upper_def)
qed

lemma length_six:
  "length xs = 6 \<Longrightarrow> \<exists>a b c d e f. xs = [a, b, c, d, e, f]"
  by (auto simp: numeral_eq_Suc length_Suc_conv)

lemma take_six:
  assumes "6 \<le> length cs"
  shows "\<exists>a b c d e f. take 6 cs = [a, b, c, d, e, f]"
  using assms by (intro length_six) simp

lemma color_string_accepted_iff:
  "color_string_to_byte_array s \<noteq> None \<longleftrightarrow> re_match_color s"
proof
  assume "color_string_to_byte_array s \<noteq> None"
  then show "re_match_color s"
    by (auto simp: color_string_to_byte_array_def split: if_splits)
next
  assume m: "re_match_color s"
  then obtain cs where s: "s = CHR ''#'' # cs" and l: "6 \<le> length cs"
    and h: "list_all is_hex_digit (take 6 cs)"
    by (auto simp: re_match_color_def split: list.splits)
  from take_six [OF l] obtain a b c d e f where t: "take 6 cs = [a, b, c, d, e, f]" by blast
  with h fromhex_six [of a b c d e f] obtain x y z where
    "fromhex (upper [a, b, c, d, e, f]) = Some [x, y, z]" by auto
  moreover have "drop 1 (upper (take 7 s)) = upper [a, b, c, d, e, f]"
    using s t by (simp add: upper_def numeral_eq_Suc)
  ultimately show "color_string_to_byte_array s \<noteq> None"
    using m by (simp add: color_string_to_byte_array_def)
qed

section \<open>Persistence\<close>

lemma dm_registered_eq:
  "dm_registered =
     \<lparr>db = \<lparr>Shelves = [], ESP32s = [example_esp32]\<rparr>,
      json_file = Some \<lparr>Shelves = [], ESP32s = [example_esp32]\<rparr>,
      json_file_backup = Some \<lparr>Shelves = [], ESP32s = []\<rparr>\<rparr>"
  by (simp add: dm_registered_def DataManager_init_def add_esp32_def save_data_def
      save_backup_data_def mac_address_exists_def)

lemma add_shelf_dm_registered:
  "add_shelf dm_registered example_shelf =
     (True,
      \<lparr>db = \<lparr>Shelves = [example_shelf], ESP32s = [example_esp32\<lparr>isUsed := True\<rparr>]\<rparr>,
       json_file = Some \<lparr>Shelves = [example_shelf], ESP32s = [example_esp32\<lparr>isUsed := True\<rparr>]\<rparr>,
       json_file_backup = Some \<lparr>Shelves = [], ESP32s = []\<rparr>\<rparr>)"
  by (simp add: dm_registered_eq add_shelf_def shelf_exists_def get_esp32_by_mac_address_def
      mac_address_exists_def assign_isUsed_def assign_Shelves_def save_data_def Let_def
      example_esp32_def example_shelf_def)

text \<open>
  C6, as claimed: every successful mutation also writes an identical backup copy.  After
  the successful \<open>add_shelf\<close> of the example the backup file still holds the empty
  database written at start-up, and differs from the JSON file.
\<close>

theorem backup_not_written_counterexample:
  "fst (add_shelf dm_registered example_shelf) \<and>
   json_file_backup (snd (add_shelf dm_registered example_shelf))
     \<noteq> json_file (snd (add_shelf dm_registered example_shelf))"
  by (simp add: add_shelf_dm_registered)

lemma save_data_files [simp]:
  "json_file (save_data dm) = Some (db dm)"
  "json_file_backup (save_data dm) = json_file_backup dm"
  "db (save_data dm) = db dm"
  by (simp_all add: save_data_def)

lemma assign_files [simp]:
  "json_file_backup (assign_isUsed e v dm) = json_file_backup dm"
  "json_file_backup (assign_Shelves ss dm) = json_file_backup dm"
  "json_file_backup (assign_Positions i ps dm) = json_file_backup dm"
  by (simp_all add: assign_isUsed_def assign_Shelves_def assign_Positions_def)

lemma add_shelf_saves:
  "add_shelf dm shelf = (True, dm') \<Longrightarrow>
     json_file dm' = Some (db dm') \<and> json_file_backup dm' = json_file_backup dm"
  by (auto simp: add_shelf_def Let_def split: if_splits option.splits)

lemma delete_shelf_saves:
  "delete_shelf_by_shelf_number dm n = (True, dm') \<Longrightarrow>
     json_file dm' = Some (db dm') \<and> json_file_backup dm' = json_file_backup dm"
  by (auto simp: delete_shelf_by_shelf_number_def Let_def split: if_splits option.splits)

lemma add_position_saves:
  "add_position dm i p = (True, dm') \<Longrightarrow>
     json_file dm' = Some (db dm') \<and> json_file_backup dm' = json_file_backup dm"
  by (auto simp: add_position_def Let_def split: if_splits option.splits)

lemma update_position_saves:
  "update_position dm i p = (Inr True, dm') \<Longrightarrow>
     json_file dm' = Some (db dm') \<and> json_file_backup dm' = json_file_backup dm"
  by (auto simp: update_position_def Let_def split: if_splits option.splits)

lemma delete_position_saves:
  "delete_position dm i p = (True, dm') \<Longrightarrow>
     json_file dm' = Some (db dm') \<and> json_file_backup dm' = json_file_backup dm"
  by (auto simp: delete_position_def Let_def split: if_splits option.splits)

text \<open>
  C6, amended: every successful mutation (adding or deleting a shelf; adding, updating or
  deleting a position) replaces the JSON file by the whole database as it is after the
  mutation, before it returns; the backup file is left as it was (it is written when the
  \<open>DataManager\<close> is constructed, and only then).
\<close>

theorem mutation_saves_primary_only:
  assumes "mutate dm m = (True, dm')"
  shows "json_file dm' = Some (db dm') \<and> json_file_backup dm' = json_file_backup dm"
proof (cases m)
  case (Add_shelf shelf)
  with assms show ?thesis by (simp add: add_shelf_saves)
next
  case (Delete_shelf n)
  with assms show ?thesis by (simp add: delete_shelf_saves)
next
  case (Add_position i p)
  with assms show ?thesis by (simp add: add_position_saves)
next
  case (Update_position i p)
  with assms have "update_position dm i p = (Inr True, dm')"
    by (auto split: prod.splits sum.splits)
  then show ?thesis by (rule update_position_saves)
next
  case (Delete_position i p)
  with assms show ?thesis by (simp add: delete_position_saves)
qed

theorem mutation_saves_primary_only_witness:
  "mutate dm_registered (Add_shelf example_shelf) = (True, dm_with_shelf) \<and>
   json_file dm_with_shelf = Some (db dm_with_shelf) \<and>
   json_file_backup dm_with_shelf = json_file_backup dm_registered \<and>
   json_file_backup dm_with_shelf \<noteq> json_file dm_with_shelf"
proof -
  have h: "mutate dm_registered (Add_shelf example_shelf) = (True, dm_with_shelf)"
    by (simp add: dm_with_shelf_def add_shelf_dm_registered)
  have "json_file_backup dm_with_shelf \<noteq> json_file dm_with_shelf"
    by (simp add: dm_with_shelf_def add_shelf_dm_registered)
  then show ?thesis using h mutation_saves_primary_only [OF h] by simp
qed

section \<open>The acknowledged publish\<close>

lemma choose_queue_simps:
  "choose_queue ''light_ack'' = Some Light_ack_queue"
  "choose_queue ''config_ack'' = Some Config_ack_queue"
  "s \<noteq> ''light_ack'' \<Longrightarrow> s \<noteq> ''config_ack'' \<Longrightarrow> choose_queue s = None"
  by (simp_all add: choose_queue_def)

lemma choose_queue_Some:
  "choose_queue s = Some q \<longleftrightarrow>
     (s = ''light_ack'' \<and> q = Light_ack_queue) \<or> (s = ''config_ack'' \<and> q = Config_ack_queue)"
  by (auto simp: choose_queue_def)


lemma deliver_frame [simp]:
  "data_manager (deliver p m) = data_manager m"
  "client_published (deliver p m) = client_published m"
  by (simp_all add: deliver_def)

lemma assign_queue_frame [simp]:
  "data_manager (assign_queue q xs m) = data_manager m"
  "client_published (assign_queue q xs m) = client_published m"
  "queue_of q (assign_queue q xs m) = xs"
  by (cases q; simp)+

lemma wait_for_ack_frame:
  "wait_for_ack timeout t0 q ack ps m = Some (status, m') \<Longrightarrow>
     data_manager m' = data_manager m \<and> client_published m' = client_published m"
proof (induction ps arbitrary: m)
  case Nil
  then show ?case by simp
next
  case (Cons p ps)
  then show ?case
    by (auto simp: Let_def split: if_splits)
qed


lemma draw_ack_id_fresh:
  "draw_ack_id mac queue draws = Some r \<Longrightarrow>
     \<lparr>ack_Mac_Address = mac, ACK_id = uint r\<rparr> \<notin> set queue \<and> r \<in> set draws"
  by (induction draws) (auto split: if_splits)

lemma delivered_in_time_Nil [simp]: "\<not> delivered_in_time timeout t0 q ack []"
  by (simp add: delivered_in_time_def)

lemma timed_out_Nil [simp]: "\<not> timed_out timeout t0 q ack []"
  by (simp add: timed_out_def)







lemma wait_returns:
  "list_ex (\<lambda>p. clock p - t0 > real_of_int timeout) ps \<Longrightarrow>
     \<exists>status m'. wait_for_ack timeout t0 q ack ps m = Some (status, m')"
  by (induction ps arbitrary: m) (auto simp: Let_def)

lemma send_valid:
  assumes "choose_queue select_queue = Some queue"
  shows "publish_with_ack_send m draws mac select_queue topic payload =
           (case draw_ack_id mac (queue_of queue m) draws of
              None \<Rightarrow> None
            | Some ack_id \<Rightarrow>
                Some (Inr (queue, \<lparr>ack_Mac_Address = mac, ACK_id = uint ack_id\<rparr>),
                      m\<lparr>client_published := client_published m @ [(topic, ack_id # payload)]\<rparr>))"
  using assms by (simp add: publish_with_ack_send_def Let_def split: option.splits)

lemma queue_of_published [simp]:
  "queue_of q (m\<lparr>client_published := xs\<rparr>) = queue_of q m"
  by (cases q) simp_all

lemma publish_valid:
  assumes "choose_queue select_queue = Some queue"
      and "draw_ack_id mac (queue_of queue m) (random_draws env) = Some ack_id"
  shows "publish_with_ack m env timeout mac select_queue topic payload =
           map_option (\<lambda>(status, m2). (Inr status, m2))
             (wait_for_ack timeout (clock_at_publish env) queue
                \<lparr>ack_Mac_Address = mac, ACK_id = uint ack_id\<rparr> (polls env)
                (m\<lparr>client_published := client_published m @ [(topic, ack_id # payload)]\<rparr>))"
  using assms by (simp add: publish_with_ack_def send_valid split: option.splits)

text \<open>
  C10.  For every \<open>select_queue\<close> other than \<open>light_ack\<close> and \<open>config_ack\<close>,
  \<open>publish_with_ack\<close> raises its exception and leaves the whole state as it was: nothing
  is published, and both ACK queues and the database are unchanged.
\<close>

theorem publish_with_ack_invalid_queue:
  assumes "select_queue \<noteq> ''light_ack''" and "select_queue \<noteq> ''config_ack''"
  shows "publish_with_ack m env timeout mac_address select_queue topic payload
           = Some (Inl Exception, m)"
  using assms by (simp add: publish_with_ack_def publish_with_ack_send_def choose_queue_simps)

theorem publish_with_ack_invalid_queue_witness:
  "''ack'' \<noteq> ''light_ack'' \<and> ''ack'' \<noteq> ''config_ack'' \<and>
   publish_with_ack mqtt_example env_reply 5 ''AA:BB:CC:DD:EE:01'' ''ack''
     ''pbl/AA:BB:CC:DD:EE:01/light/allOff'' [] = Some (Inl Exception, mqtt_example)"
  using publish_with_ack_invalid_queue [of "''ack''" mqtt_example env_reply 5
      "''AA:BB:CC:DD:EE:01''" "''pbl/AA:BB:CC:DD:EE:01/light/allOff''" "[]"]
  by simp

lemma publish_env_reply:
  "publish_with_ack mqtt_example env_reply 5 ''AA:BB:CC:DD:EE:01'' ''config_ack''
     ''pbl/AA:BB:CC:DD:EE:01/config/reset'' []
   = Some (Inr 200,
       mqtt_example\<lparr>client_published := [(''pbl/AA:BB:CC:DD:EE:01/config/reset'', [7])]\<rparr>)"
  by (simp add: publish_with_ack_def publish_with_ack_send_def choose_queue_def deliver_def
      mqtt_example_def env_reply_def example_ack_def Let_def)

lemma publish_env_no_reply:
  "publish_with_ack mqtt_example env_no_reply 5 ''AA:BB:CC:DD:EE:01'' ''config_ack''
     ''pbl/AA:BB:CC:DD:EE:01/config/reset'' []
   = Some (Inr 504,
       mqtt_example\<lparr>client_published := [(''pbl/AA:BB:CC:DD:EE:01/config/reset'', [7])]\<rparr>)"
  by (simp add: publish_with_ack_def publish_with_ack_send_def choose_queue_def deliver_def
      mqtt_example_def env_no_reply_def example_ack_def Let_def)

lemma draw_ack_id_enough:
  assumes "list_ex (\<lambda>r. \<lparr>ack_Mac_Address = mac, ACK_id = uint r\<rparr> \<notin> set queue) draws"
  shows "\<exists>pre ack_id post. draws = pre @ ack_id # post \<and>
           (\<forall>r\<in>set pre. \<lparr>ack_Mac_Address = mac, ACK_id = uint r\<rparr> \<in> set queue) \<and>
           \<lparr>ack_Mac_Address = mac, ACK_id = uint ack_id\<rparr> \<notin> set queue \<and>
           draw_ack_id mac queue draws = Some ack_id"
  using assms
proof (induction draws)
  case Nil
  then show ?case by simp
next
  case (Cons r rs)
  show ?case
  proof (cases "\<lparr>ack_Mac_Address = mac, ACK_id = uint r\<rparr> \<in> set queue")
    case False
    then have "r # rs = [] @ r # rs \<and>
        (\<forall>x\<in>set []. \<lparr>ack_Mac_Address = mac, ACK_id = uint x\<rparr> \<in> set queue) \<and>
        \<lparr>ack_Mac_Address = mac, ACK_id = uint r\<rparr> \<notin> set queue \<and>
        draw_ack_id mac queue (r # rs) = Some r"
      by simp
    then show ?thesis by blast
  next
    case True
    with Cons.prems have "list_ex (\<lambda>r. \<lparr>ack_Mac_Address = mac, ACK_id = uint r\<rparr> \<notin> set queue) rs"
      by simp
    from Cons.IH [OF this] obtain pre ack_id post where
      p: "rs = pre @ ack_id # post"
         "\<forall>x\<in>set pre. \<lparr>ack_Mac_Address = mac, ACK_id = uint x\<rparr> \<in> set queue"
         "\<lparr>ack_Mac_Address = mac, ACK_id = uint ack_id\<rparr> \<notin> set queue"
         "draw_ack_id mac queue rs = Some ack_id"
      by blast
    with True have "r # rs = (r # pre) @ ack_id # post \<and>
        (\<forall>x\<in>set (r # pre). \<lparr>ack_Mac_Address = mac, ACK_id = uint x\<rparr> \<in> set queue) \<and>
        \<lparr>ack_Mac_Address = mac, ACK_id = uint ack_id\<rparr> \<notin> set queue \<and>
        draw_ack_id mac queue (r # rs) = Some ack_id"
      by simp
    then show ?thesis by blast
  qed
qed

lemma all_ids_queue_mem:
  "\<lparr>ack_Mac_Address = mac, ACK_id = uint (r :: byte)\<rparr> \<in> set (all_ids_queue mac)"
proof -
  have "unat r < 256" using unsigned_less [of r, where ?'a = nat] by simp
  then have "unat r \<in> set [0..<256]" by simp
  then have "(\<lambda>i. \<lparr>ack_Mac_Address = mac, ACK_id = int i\<rparr>) (unat r) \<in> set (all_ids_queue mac)"
    unfolding all_ids_queue_def set_map by (rule imageI)
  then show ?thesis by simp
qed

lemma draw_ack_id_exhausted: "draw_ack_id mac (all_ids_queue mac) draws = None"
  by (induction draws) (simp_all add: all_ids_queue_mem)

text \<open>
  C9, as claimed: every call with a valid \<open>select_queue\<close> publishes exactly one message.
  With an ACK of the device in the queue for each of the 256 ids, no draws whatever end
  the loop that draws the id: the call publishes nothing and does not return.
\<close>

theorem all_ids_queued_nothing_published_counterexample:
  "\<not> (\<exists>draws r m'. publish_with_ack_send mqtt_all_ids_queued draws ''AA:BB:CC:DD:EE:01''
           ''light_ack'' ''pbl/AA:BB:CC:DD:EE:01/light/allOff'' [] = Some (r, m')) \<and>
   \<not> (\<exists>env r m'. publish_with_ack mqtt_all_ids_queued env 5 ''AA:BB:CC:DD:EE:01''
           ''light_ack'' ''pbl/AA:BB:CC:DD:EE:01/light/allOff'' [] = Some (r, m'))"
proof -
  have q: "light_ack_queue mqtt_all_ids_queued = all_ids_queue ''AA:BB:CC:DD:EE:01''"
    by (simp add: mqtt_all_ids_queued_def)
  have "publish_with_ack_send mqtt_all_ids_queued draws ''AA:BB:CC:DD:EE:01''
           ''light_ack'' ''pbl/AA:BB:CC:DD:EE:01/light/allOff'' [] = None" for draws
    by (simp add: send_valid [OF choose_queue_simps(1)] q draw_ack_id_exhausted)
  then show ?thesis
    by (simp add: publish_with_ack_def)
qed

text \<open>
  C9, amended: for a call of \<open>publish_with_ack\<close> with a valid \<open>select_queue\<close> whose draws
  give an id with no ACK of the device in the selected queue, the id chosen is the first
  such draw, every draw before it having its ACK in the queue; exactly one message is
  published, to the given topic: that id, one byte of value 0 to 255, followed by the
  payload of the caller unchanged.  It is published before the wait, and still the only
  message when the call returns, which it does once a poll reads the clock past the
  timeout.
\<close>

theorem publish_with_ack_frames_payload:
  assumes "choose_queue select_queue = Some queue"
      and "list_ex (\<lambda>r. \<lparr>ack_Mac_Address = mac_address, ACK_id = uint r\<rparr>
                           \<notin> set (queue_of queue m)) (random_draws env)"
  shows "\<exists>pre ack_id post.
           random_draws env = pre @ ack_id # post \<and>
           (\<forall>r\<in>set pre. \<lparr>ack_Mac_Address = mac_address, ACK_id = uint r\<rparr>
                           \<in> set (queue_of queue m)) \<and>
           \<lparr>ack_Mac_Address = mac_address, ACK_id = uint ack_id\<rparr> \<notin> set (queue_of queue m) \<and>
           0 \<le> uint ack_id \<and> uint ack_id \<le> 255 \<and>
           publish_with_ack_send m (random_draws env) mac_address select_queue topic payload
             = Some (Inr (queue, \<lparr>ack_Mac_Address = mac_address, ACK_id = uint ack_id\<rparr>),
                     m\<lparr>client_published := client_published m @ [(topic, ack_id # payload)]\<rparr>) \<and>
           (\<forall>r m'. publish_with_ack m env timeout mac_address select_queue topic payload
                     = Some (r, m')
              \<longrightarrow> client_published m' = client_published m @ [(topic, ack_id # payload)]) \<and>
           (list_ex (\<lambda>p. clock p - clock_at_publish env > real_of_int timeout) (polls env)
              \<longrightarrow> (\<exists>r m'. publish_with_ack m env timeout mac_address select_queue topic payload
                     = Some (r, m')))"
proof -
  from draw_ack_id_enough [OF assms(2)] obtain pre ack_id post where
    d: "random_draws env = pre @ ack_id # post"
       "\<forall>r\<in>set pre. \<lparr>ack_Mac_Address = mac_address, ACK_id = uint r\<rparr> \<in> set (queue_of queue m)"
       "\<lparr>ack_Mac_Address = mac_address, ACK_id = uint ack_id\<rparr> \<notin> set (queue_of queue m)"
       "draw_ack_id mac_address (queue_of queue m) (random_draws env) = Some ack_id"
    by blast
  let ?ack = "\<lparr>ack_Mac_Address = mac_address, ACK_id = uint ack_id\<rparr>"
  let ?m1 = "m\<lparr>client_published := client_published m @ [(topic, ack_id # payload)]\<rparr>"
  let ?w = "wait_for_ack timeout (clock_at_publish env) queue ?ack (polls env) ?m1"
  have pub: "publish_with_ack m env timeout mac_address select_queue topic payload
               = map_option (\<lambda>(status, m2). (Inr status, m2)) ?w"
    by (rule publish_valid [OF assms(1) d(4)])
  have send: "publish_with_ack_send m (random_draws env) mac_address select_queue topic payload
                = Some (Inr (queue, ?ack), ?m1)"
    by (simp add: send_valid [OF assms(1)] d(4))
  have range: "0 \<le> uint ack_id \<and> uint ack_id \<le> 255"
    using uint_bounded [of ack_id] by simp
  have one: "client_published m' = client_published m @ [(topic, ack_id # payload)]"
    if "publish_with_ack m env timeout mac_address select_queue topic payload = Some (r, m')"
    for r m'
  proof -
    from that obtain status where "?w = Some (status, m')"
      unfolding pub by auto
    from wait_for_ack_frame [OF this] show ?thesis by simp
  qed
  have ret: "\<exists>r m'. publish_with_ack m env timeout mac_address select_queue topic payload
                     = Some (r, m')"
    if "list_ex (\<lambda>p. clock p - clock_at_publish env > real_of_int timeout) (polls env)"
  proof -
    from wait_returns [OF that] obtain status m' where "?w = Some (status, m')" by blast
    then show ?thesis unfolding pub by auto
  qed
  from d(1-3) range send one ret show ?thesis by blast
qed

lemma publish_env_redraw:
  "publish_with_ack mqtt_stale_ack env_redraw 5 ''AA:BB:CC:DD:EE:01'' ''config_ack''
     ''pbl/AA:BB:CC:DD:EE:01/config/reset'' []
   = Some (Inr 200,
       mqtt_stale_ack\<lparr>client_published := [(''pbl/AA:BB:CC:DD:EE:01/config/reset'', [9])]\<rparr>)"
  by (simp add: publish_with_ack_def publish_with_ack_send_def choose_queue_def deliver_def
      mqtt_stale_ack_def mqtt_example_def env_redraw_def example_ack_def Let_def)

theorem publish_with_ack_frames_payload_witness:
  "choose_queue ''config_ack'' = Some Config_ack_queue \<and>
   list_ex (\<lambda>r. \<lparr>ack_Mac_Address = ''AA:BB:CC:DD:EE:01'', ACK_id = uint r\<rparr>
                   \<notin> set (queue_of Config_ack_queue mqtt_stale_ack)) (random_draws env_redraw) \<and>
   random_draws env_redraw = [7, 9] \<and>
   queue_of Config_ack_queue mqtt_stale_ack
     = [\<lparr>ack_Mac_Address = ''AA:BB:CC:DD:EE:01'', ACK_id = uint (7 :: byte)\<rparr>] \<and>
   publish_with_ack mqtt_stale_ack env_redraw 5 ''AA:BB:CC:DD:EE:01'' ''config_ack''
     ''pbl/AA:BB:CC:DD:EE:01/config/reset'' []
   = Some (Inr 200,
       mqtt_stale_ack\<lparr>client_published := [(''pbl/AA:BB:CC:DD:EE:01/config/reset'', [9])]\<rparr>) \<and>
   (\<exists>pre ack_id post.
      random_draws env_redraw = pre @ ack_id # post \<and>
      (\<forall>r\<in>set pre. \<lparr>ack_Mac_Address = ''AA:BB:CC:DD:EE:01'', ACK_id = uint r\<rparr>
                      \<in> set (queue_of Config_ack_queue mqtt_stale_ack)) \<and>
      \<lparr>ack_Mac_Address = ''AA:BB:CC:DD:EE:01'', ACK_id = uint ack_id\<rparr>
        \<notin> set (queue_of Config_ack_queue mqtt_stale_ack) \<and>
      client_published
        (mqtt_stale_ack\<lparr>client_published := [(''pbl/AA:BB:CC:DD:EE:01/config/reset'', [9])]\<rparr>)
      = client_published mqtt_stale_ack @ [(''pbl/AA:BB:CC:DD:EE:01/config/reset'', [ack_id])])"
proof -
  have h1: "choose_queue ''config_ack'' = Some Config_ack_queue"
    by (simp add: choose_queue_def)
  have h2: "list_ex (\<lambda>r. \<lparr>ack_Mac_Address = ''AA:BB:CC:DD:EE:01'', ACK_id = uint r\<rparr>
                   \<notin> set (queue_of Config_ack_queue mqtt_stale_ack)) (random_draws env_redraw)"
    by (simp add: mqtt_stale_ack_def env_redraw_def example_ack_def)
  have e: "random_draws env_redraw = [7, 9]"
    "queue_of Config_ack_queue mqtt_stale_ack
       = [\<lparr>ack_Mac_Address = ''AA:BB:CC:DD:EE:01'', ACK_id = uint (7 :: byte)\<rparr>]"
    by (simp_all add: mqtt_stale_ack_def env_redraw_def example_ack_def)
  from publish_with_ack_frames_payload [OF h1 h2, where timeout = 5
      and topic = "''pbl/AA:BB:CC:DD:EE:01/config/reset''" and payload = "[]"]
  obtain pre ack_id post where
    "random_draws env_redraw = pre @ ack_id # post"
    "\<forall>r\<in>set pre. \<lparr>ack_Mac_Address = ''AA:BB:CC:DD:EE:01'', ACK_id = uint r\<rparr>
                      \<in> set (queue_of Config_ack_queue mqtt_stale_ack)"
    "\<lparr>ack_Mac_Address = ''AA:BB:CC:DD:EE:01'', ACK_id = uint ack_id\<rparr>
        \<notin> set (queue_of Config_ack_queue mqtt_stale_ack)"
    "\<forall>r m'. publish_with_ack mqtt_stale_ack env_redraw 5 ''AA:BB:CC:DD:EE:01'' ''config_ack''
              ''pbl/AA:BB:CC:DD:EE:01/config/reset'' [] = Some (r, m')
       \<longrightarrow> client_published m' = client_published mqtt_stale_ack
              @ [(''pbl/AA:BB:CC:DD:EE:01/config/reset'', ack_id # [])]"
    by blast
  with publish_env_redraw h1 h2 e show ?thesis by blast
qed




text \<open>
  C5.  The claim: no correlation id is shared by two exchanges outstanding at the same
  time on a device and class.  The id is checked against the queue of \<^emph>\<open>received\<close>
  ACKs only, and an exchange that waits is recorded nowhere: a second call that starts
  while the first still waits, and draws the same number, sends with the same id.
\<close>

theorem two_outstanding_exchanges_share_id:
  "publish_with_ack_send mqtt_example [7] ''AA:BB:CC:DD:EE:01'' ''light_ack''
     ''pbl/AA:BB:CC:DD:EE:01/light/set'' [10, 255, 0, 255]
   = Some (Inr (Light_ack_queue, example_ack), mqtt_one_outstanding) \<and>
   publish_with_ack_send mqtt_one_outstanding [7] ''AA:BB:CC:DD:EE:01'' ''light_ack''
     ''pbl/AA:BB:CC:DD:EE:01/light/unset'' [10]
   = Some (Inr (Light_ack_queue, example_ack),
       mqtt_one_outstanding\<lparr>client_published :=
         [(''pbl/AA:BB:CC:DD:EE:01/light/set'', [7, 10, 255, 0, 255]),
          (''pbl/AA:BB:CC:DD:EE:01/light/unset'', [7, 10])]\<rparr>)"
  by (simp add: publish_with_ack_send_def choose_queue_def mqtt_one_outstanding_def
      mqtt_example_def example_ack_def Let_def)

section \<open>Timeouts of the mutating requests\<close>

lemma publish_with_ack_data_manager:
  assumes "publish_with_ack m env timeout mac select_queue topic payload = Some (r, m')"
  shows "data_manager m' = data_manager m"
proof (cases "choose_queue select_queue")
  case None
  with assms show ?thesis
    by (simp add: publish_with_ack_def publish_with_ack_send_def)
next
  case (Some queue)
  show ?thesis
  proof (cases "draw_ack_id mac (queue_of queue m) (random_draws env)")
    case None
    with assms Some show ?thesis
      by (simp add: publish_with_ack_def send_valid)
  next
    case (Some ack_id)
    from assms obtain status where
      "wait_for_ack timeout (clock_at_publish env) queue
         \<lparr>ack_Mac_Address = mac, ACK_id = uint ack_id\<rparr> (polls env)
         (m\<lparr>client_published := client_published m @ [(topic, ack_id # payload)]\<rparr>)
       = Some (status, m')"
      by (auto simp: publish_valid [OF \<open>choose_queue select_queue = Some queue\<close> Some])
    from wait_for_ack_frame [OF this] show ?thesis by simp
  qed
qed

lemma publish_create_update_position_data_manager:
  assumes "publish_create_update_position m env sp mac create = Some (r, m')"
  shows "data_manager m' = data_manager m"
  using assms publish_with_ack_data_manager
  by (fastforce simp: publish_create_update_position_def split: option.splits if_splits)

lemma dm_with_shelf_eq:
  "dm_with_shelf =
     \<lparr>db = \<lparr>Shelves = [example_shelf], ESP32s = [example_esp32\<lparr>isUsed := True\<rparr>]\<rparr>,
      json_file = Some \<lparr>Shelves = [example_shelf], ESP32s = [example_esp32\<lparr>isUsed := True\<rparr>]\<rparr>,
      json_file_backup = Some \<lparr>Shelves = [], ESP32s = []\<rparr>\<rparr>"
  by (simp add: dm_with_shelf_def add_shelf_dm_registered)

text \<open>
  C4.  For a request to create, update or delete a position or to delete a shelf: when
  the exchange with the device that its handler performs returns 504, the handler returns
  504 to the caller, and the \<open>DataManager\<close> (the database in memory and both files) is
  exactly as it was before the request.
\<close>

theorem timeout_leaves_database:
  assumes "device_exchange m env req = Some (Some (Inr 504, m1))"
  shows "handle m env req = Some (Inr 504, m1) \<and> data_manager m1 = data_manager m"
proof (cases req)
  case (CreatePosition sp)
  with assms show ?thesis
    by (auto simp: create_position_def split: sum.splits
        dest: publish_create_update_position_data_manager)
next
  case (UpdatePosition sp)
  with assms show ?thesis
    by (auto simp: update_position_handler_def split: sum.splits
        dest: publish_create_update_position_data_manager)
next
  case (DeletePosition dp)
  with assms show ?thesis
    by (auto simp: delete_position_handler_def split: sum.splits option.splits
        dest: publish_with_ack_data_manager)
next
  case (DeleteShelf n)
  with assms show ?thesis
    by (auto simp: delete_shelf_def Let_def split: sum.splits
        dest: publish_with_ack_data_manager)
qed

lemma handle_504_database:
  assumes "handle m env req = Some (Inr 504, m')"
  shows "data_manager m' = data_manager m"
proof (cases req)
  case (CreatePosition sp)
  with assms show ?thesis
    by (auto simp: create_position_def create_position_validate_def validate_shelf_def Let_def
        split: sum.splits option.splits if_splits prod.splits bool.splits
        dest: publish_create_update_position_data_manager)
next
  case (UpdatePosition sp)
  with assms show ?thesis
    by (auto simp: update_position_handler_def update_position_validate_def validate_shelf_def
        Let_def split: sum.splits option.splits if_splits prod.splits bool.splits
        dest: publish_create_update_position_data_manager)
next
  case (DeletePosition dp)
  with assms show ?thesis
    by (auto simp: delete_position_handler_def delete_position_validate_def validate_shelf_def
        Let_def split: sum.splits option.splits if_splits prod.splits bool.splits
        dest: publish_with_ack_data_manager)
next
  case (DeleteShelf n)
  with assms show ?thesis
    by (auto simp: delete_shelf_def delete_shelf_validate_def Let_def
        split: sum.splits option.splits if_splits prod.splits bool.splits
        dest: publish_with_ack_data_manager)
qed

lemma create_position_validate_example:
  "create_position_validate dm_with_shelf example_position = Inr (''AA:BB:CC:DD:EE:01'', 0)"
  by (simp add: create_position_validate_def dm_with_shelf_eq example_position_def
      example_shelf_def get_mac_address_by_shelf_number_def shelf_exists_def
      position_id_exists_def get_shelf_by_shelf_number_def validate_shelf_def leds_exists_def
      get_positions_by_shelf_number_def Let_def)

lemma publish_create_example:
  "publish_create_update_position mqtt_example env_no_reply example_position
     ''AA:BB:CC:DD:EE:01'' True
   = Some (Inr 504,
       mqtt_example\<lparr>client_published :=
         [(''pbl/AA:BB:CC:DD:EE:01/config/create_Position'', [7, 3, 10, 20])]\<rparr>)"
  by (simp add: publish_create_update_position_def bytearray_def example_position_def TIMEOUT_def
      publish_with_ack_def publish_with_ack_send_def choose_queue_def deliver_def
      mqtt_example_def env_no_reply_def Let_def)

theorem timeout_leaves_database_witness:
  "device_exchange mqtt_example env_no_reply (CreatePosition example_position)
     = Some (Some (Inr 504,
         mqtt_example\<lparr>client_published :=
           [(''pbl/AA:BB:CC:DD:EE:01/config/create_Position'', [7, 3, 10, 20])]\<rparr>)) \<and>
   handle mqtt_example env_no_reply (CreatePosition example_position)
     = Some (Inr 504,
         mqtt_example\<lparr>client_published :=
           [(''pbl/AA:BB:CC:DD:EE:01/config/create_Position'', [7, 3, 10, 20])]\<rparr>) \<and>
   data_manager
     (mqtt_example\<lparr>client_published :=
        [(''pbl/AA:BB:CC:DD:EE:01/config/create_Position'', [7, 3, 10, 20])]\<rparr>)
     = data_manager mqtt_example"
proof -
  have v: "create_position_validate (data_manager mqtt_example) example_position
             = Inr (''AA:BB:CC:DD:EE:01'', 0)"
    by (simp add: mqtt_example_def create_position_validate_example)
  have h: "device_exchange mqtt_example env_no_reply (CreatePosition example_position)
     = Some (Some (Inr 504,
         mqtt_example\<lparr>client_published :=
           [(''pbl/AA:BB:CC:DD:EE:01/config/create_Position'', [7, 3, 10, 20])]\<rparr>))"
    by (simp add: v publish_create_example)
  from timeout_leaves_database [OF h] h show ?thesis by simp
qed

section \<open>The assignment of devices to shelves\<close>

lemma add_shelf_refuses_used:
  "add_shelf dm_with_shelf second_shelf = (False, dm_with_shelf)"
  by (simp add: add_shelf_def dm_with_shelf_eq second_shelf_def example_shelf_def
      example_esp32_def shelf_exists_def get_esp32_by_mac_address_def mac_address_exists_def)

lemma add_shelf_after_clearing:
  "add_shelf (assign_isUsed 0 False dm_with_shelf) second_shelf
     = (True, data_manager mqtt_double_assigned)"
  by (simp add: add_shelf_def dm_with_shelf_eq second_shelf_def example_shelf_def
      example_esp32_def shelf_exists_def get_esp32_by_mac_address_def mac_address_exists_def
      assign_isUsed_def assign_Shelves_def save_data_def mqtt_double_assigned_def Let_def)

lemma publish_get_example:
  "publish_with_ack (mqtt_example\<lparr>data_manager := data_manager mqtt_double_assigned\<rparr>)
     env_reply TIMEOUT ''AA:BB:CC:DD:EE:01'' ''config_ack''
     ''pbl/AA:BB:CC:DD:EE:01/config/get'' []
   = Some (Inr 200, mqtt_double_assigned)"
  by (simp add: publish_with_ack_def publish_with_ack_send_def choose_queue_def deliver_def
      mqtt_example_def env_reply_def example_ack_def mqtt_double_assigned_def Let_def TIMEOUT_def)

lemma create_shelf_rejects_used_device:
  "create_shelf mqtt_example second_shelf = (406, mqtt_example)"
  by (simp add: create_shelf_def mqtt_example_def dm_with_shelf_eq second_shelf_def
      example_shelf_def example_esp32_def shelf_exists_def get_esp32_by_mac_address_def
      mac_address_exists_def Let_def)

text \<open>
  C1.  The claim: in every reachable state at most one shelf references a device.  In
  the state where shelf 7 is bound to the device, the request \<open>getESP32\<close> for the device
  and the unused shelf number 8 ends with status 200 and with shelves 7 and 8 both bound
  to the device.  \<open>createShelf\<close> rejects the same binding with 406.
\<close>

theorem get_esp32_config_double_assignment:
  "get_esp32_config mqtt_example env_reply ''AA:BB:CC:DD:EE:01'' 8
     = Some (Inr 200, mqtt_double_assigned) \<and>
   map Mac_Address (Shelves (db (data_manager mqtt_example))) = [''AA:BB:CC:DD:EE:01''] \<and>
   map Mac_Address (Shelves (db (data_manager mqtt_double_assigned)))
     = [''AA:BB:CC:DD:EE:01'', ''AA:BB:CC:DD:EE:01''] \<and>
   map ShelfNumber (Shelves (db (data_manager mqtt_double_assigned))) = [7, 8]"
proof -
  have pre: "mac_address_exists dm_with_shelf ''AA:BB:CC:DD:EE:01''"
    "get_esp32_by_mac_address dm_with_shelf ''AA:BB:CC:DD:EE:01'' = Some 0"
    "get_mac_address_by_shelf_number dm_with_shelf 8 = None"
    "\<not> shelf_exists dm_with_shelf 8"
    "isUsed (ESP32s (db dm_with_shelf) ! 0)"
    by (simp_all add: dm_with_shelf_eq example_shelf_def example_esp32_def shelf_exists_def
        get_esp32_by_mac_address_def mac_address_exists_def get_mac_address_by_shelf_number_def)
  have new: "get_esp32_config_new_shelf mqtt_example env_reply ''AA:BB:CC:DD:EE:01'' 8 0
               = Some (Inr 200, mqtt_double_assigned)"
    using pre add_shelf_after_clearing publish_get_example
    by (simp add: get_esp32_config_new_shelf_def mqtt_example_def second_shelf_def Let_def)
  have "get_esp32_config mqtt_example env_reply ''AA:BB:CC:DD:EE:01'' 8
          = Some (Inr 200, mqtt_double_assigned)"
    using pre new by (simp add: get_esp32_config_def mqtt_example_def Let_def)
  then show ?thesis
    by (simp add: mqtt_double_assigned_def mqtt_example_def dm_with_shelf_eq example_shelf_def
        second_shelf_def)
qed

text \<open>
  C7.  The claim: only \<open>add_shelf\<close> and \<open>delete_shelf_by_shelf_number\<close> change \<open>isUsed\<close>.
  In the same state \<open>add_shelf\<close> refuses the second shelf, the device being used; the
  handler of \<open>getESP32\<close> sets \<open>isUsed\<close> of the device to \<open>False\<close> by its own assignment,
  after which \<open>add_shelf\<close> accepts the shelf.
\<close>

theorem get_esp32_config_clears_isUsed:
  "isUsed (ESP32s (db dm_with_shelf) ! 0) \<and>
   add_shelf dm_with_shelf second_shelf = (False, dm_with_shelf) \<and>
   \<not> isUsed (ESP32s (db (assign_isUsed 0 False dm_with_shelf)) ! 0) \<and>
   get_esp32_config_new_shelf mqtt_example env_reply ''AA:BB:CC:DD:EE:01'' 8 0
     = Some (Inr 200, mqtt_double_assigned) \<and>
   second_shelf \<in> set (Shelves (db (data_manager mqtt_double_assigned)))"
proof -
  have pre: "isUsed (ESP32s (db dm_with_shelf) ! 0)"
    by (simp add: dm_with_shelf_eq example_esp32_def)
  have cleared: "\<not> isUsed (ESP32s (db (assign_isUsed 0 False dm_with_shelf)) ! 0)"
    by (simp add: dm_with_shelf_eq assign_isUsed_def)
  have new: "get_esp32_config_new_shelf mqtt_example env_reply ''AA:BB:CC:DD:EE:01'' 8 0
               = Some (Inr 200, mqtt_double_assigned)"
    using pre add_shelf_after_clearing publish_get_example
    by (simp add: get_esp32_config_new_shelf_def mqtt_example_def second_shelf_def Let_def)
  show ?thesis
    using pre cleared new add_shelf_refuses_used by (simp add: mqtt_double_assigned_def)
qed

section \<open>LED-disjointness of the positions of a shelf\<close>

lemma leds_disjoint_sym: "leds_disjoint p q \<Longrightarrow> leds_disjoint q p"
  by (auto simp: leds_disjoint_def)

lemma positions_disjoint_nth:
  "positions_disjoint ps \<longleftrightarrow>
     (\<forall>i<length ps. \<forall>j<length ps. i \<noteq> j \<longrightarrow> leds_disjoint (ps ! i) (ps ! j))"
proof
  assume "positions_disjoint ps"
  then have lt: "\<And>i j. i < j \<Longrightarrow> j < length ps \<Longrightarrow> leds_disjoint (ps ! i) (ps ! j)"
    by (simp add: positions_disjoint_def sorted_wrt_iff_nth_less)
  show "\<forall>i<length ps. \<forall>j<length ps. i \<noteq> j \<longrightarrow> leds_disjoint (ps ! i) (ps ! j)"
  proof (intro allI impI)
    fix i j assume "i < length ps" "j < length ps" "i \<noteq> j"
    then consider "i < j" | "j < i" by linarith
    then show "leds_disjoint (ps ! i) (ps ! j)"
      using lt \<open>i < length ps\<close> \<open>j < length ps\<close> leds_disjoint_sym by cases blast+
  qed
next
  assume "\<forall>i<length ps. \<forall>j<length ps. i \<noteq> j \<longrightarrow> leds_disjoint (ps ! i) (ps ! j)"
  then show "positions_disjoint ps"
    by (simp add: positions_disjoint_def sorted_wrt_iff_nth_less)
qed

lemma find_index_Some:
  "find_index P xs = Some i \<Longrightarrow> i < length xs \<and> P (xs ! i) \<and> (\<forall>j<i. \<not> P (xs ! j))"
proof (induction xs arbitrary: i)
  case Nil
  then show ?case by simp
next
  case (Cons x xs)
  show ?case
  proof (cases "P x")
    case True
    with Cons.prems show ?thesis by simp
  next
    case False
    with Cons.prems obtain k where k: "find_index P xs = Some k" "i = Suc k"
      by auto
    from Cons.IH [OF k(1)] False k(2) show ?thesis
      by (auto simp: nth_Cons' less_Suc_eq_0_disj)
  qed
qed

lemma find_index_None: "find_index P xs = None \<longleftrightarrow> \<not> list_ex P xs"
  by (induction xs) auto

lemma find_index_distinct:
  "distinct (map f xs) \<Longrightarrow> i < length xs \<Longrightarrow> find_index (\<lambda>x. f x = f (xs ! i)) xs = Some i"
proof (induction xs arbitrary: i)
  case Nil
  then show ?case by simp
next
  case (Cons x xs)
  show ?case
  proof (cases i)
    case 0
    then show ?thesis by simp
  next
    case (Suc k)
    with Cons.prems have "f x \<noteq> f (xs ! k)" by auto
    with Cons.prems Suc Cons.IH [of k] show ?thesis by simp
  qed
qed

lemma get_shelf_by_shelf_number_Some:
  "get_shelf_by_shelf_number dm n = Some i \<Longrightarrow>
     i < length (Shelves (db dm)) \<and> ShelfNumber (Shelves (db dm) ! i) = n \<and> shelf_exists dm n"
  by (auto simp: get_shelf_by_shelf_number_def split: if_splits dest: find_index_Some)

lemma get_shelf_by_mac_address_Some:
  "get_shelf_by_mac_address dm mac = Some i \<Longrightarrow>
     i < length (Shelves (db dm)) \<and> Mac_Address (Shelves (db dm) ! i) = mac"
  by (auto simp: get_shelf_by_mac_address_def split: if_splits dest: find_index_Some)

lemma shelf_exists_nth:
  "i < length (Shelves (db dm)) \<Longrightarrow> shelf_exists dm (ShelfNumber (Shelves (db dm) ! i))"
  by (auto simp: shelf_exists_def list_ex_iff)

lemma get_shelf_by_shelf_number_distinct:
  "distinct (map ShelfNumber (Shelves (db dm))) \<Longrightarrow> i < length (Shelves (db dm)) \<Longrightarrow>
     get_shelf_by_shelf_number dm (ShelfNumber (Shelves (db dm) ! i)) = Some i"
  by (simp add: get_shelf_by_shelf_number_def shelf_exists_nth find_index_distinct)

lemma leds_exists_False:
  assumes "get_shelf_by_shelf_number dm n = Some i" and "\<not> leds_exists dm leds n"
  shows "\<forall>q\<in>set (Positions (Shelves (db dm) ! i)). set leds \<inter> set (LEDs q) = {}"
  using assms get_shelf_by_shelf_number_Some [OF assms(1)]
  by (auto simp: leds_exists_def get_positions_by_shelf_number_def list_ex_iff)

lemma leds_exists_exclusive_False:
  assumes "get_shelf_by_shelf_number dm (pos_ShelfNumber sp) = Some i"
      and "position_id_exists dm (pos_ShelfNumber sp) (PositionId sp)"
      and "\<not> leds_exists_exclusive dm sp"
  shows "\<forall>q\<in>set (Positions (Shelves (db dm) ! i)).
           PositionId q \<noteq> PositionId sp \<longrightarrow> set (LEDs sp) \<inter> set (LEDs q) = {}"
  using assms get_shelf_by_shelf_number_Some [OF assms(1)]
  by (auto simp: leds_exists_exclusive_def get_positions_by_shelf_number_def list_ex_iff)

lemma position_id_exists_False:
  assumes "i < length (Shelves (db dm))"
      and "\<not> position_id_exists dm (ShelfNumber (Shelves (db dm) ! i)) pid"
  shows "pid \<notin> PositionId ` set (Positions (Shelves (db dm) ! i))"
  using assms shelf_exists_nth [OF assms(1)]
  by (auto simp: position_id_exists_def list_ex_iff)

lemma inventory_inv_assign_Positions:
  assumes "inventory_inv (db dm)" and "i < length (Shelves (db dm))" and "positions_ok ps"
  shows "inventory_inv (db (assign_Positions i ps dm))"
proof -
  let ?ss = "Shelves (db dm)"
  have "map ShelfNumber (?ss[i := (?ss ! i)\<lparr>Positions := ps\<rparr>]) = map ShelfNumber ?ss"
    using assms(2) by (simp add: map_update list_update_same_conv)
  moreover have "list_all (\<lambda>shelf. positions_ok (Positions shelf))
                   (?ss[i := (?ss ! i)\<lparr>Positions := ps\<rparr>])"
    using assms
    by (auto simp: inventory_inv_def list_all_iff dest!: set_update_subset_insert [THEN subsetD])
  ultimately show ?thesis
    using assms(1) by (simp add: inventory_inv_def assign_Positions_def assign_Shelves_def)
qed

lemma inventory_inv_save_data [simp]: "inventory_inv (db (save_data dm)) = inventory_inv (db dm)"
  by (simp add: save_data_def)

lemma inventory_inv_nth:
  "inventory_inv (db dm) \<Longrightarrow> i < length (Shelves (db dm)) \<Longrightarrow>
     positions_ok (Positions (Shelves (db dm) ! i))"
  by (simp add: inventory_inv_def list_all_length)

lemma positions_ok_append:
  assumes "positions_ok ps" and "PositionId p \<notin> PositionId ` set ps"
      and "\<forall>q\<in>set ps. set (LEDs p) \<inter> set (LEDs q) = {}"
  shows "positions_ok (ps @ [p])"
  using assms
  by (auto simp: positions_ok_def positions_disjoint_def sorted_wrt_append leds_disjoint_def)

lemma positions_ok_update:
  assumes "positions_ok ps" and "j < length ps" and "PositionId p = PositionId (ps ! j)"
      and "\<forall>q\<in>set ps. PositionId q \<noteq> PositionId p \<longrightarrow> set (LEDs p) \<inter> set (LEDs q) = {}"
  shows "positions_ok (ps[j := p])"
proof -
  from assms(1) have d: "distinct (map PositionId ps)" and pd: "positions_disjoint ps"
    by (simp_all add: positions_ok_def)
  have ids: "map PositionId (ps[j := p]) = map PositionId ps"
    using assms(2,3) by (simp add: map_update list_update_same_conv)
  have other: "leds_disjoint p (ps ! b)" if "b < length ps" "b \<noteq> j" for b
  proof -
    from d that assms(2) have "PositionId (ps ! b) \<noteq> PositionId (ps ! j)"
      by (simp add: distinct_conv_nth)
    with assms(3,4) that(1) show ?thesis
      by (simp add: leds_disjoint_def)
  qed
  have "leds_disjoint (ps[j := p] ! a) (ps[j := p] ! b)"
    if "a < length ps" "b < length ps" "a \<noteq> b" for a b
  proof (cases "a = j")
    case True
    with that other [of b] show ?thesis by simp
  next
    case False
    show ?thesis
    proof (cases "b = j")
      case True
      with that False other [of a] show ?thesis
        by (simp add: leds_disjoint_sym)
    next
      case bj: False
      with False that pd show ?thesis
        by (simp add: positions_disjoint_nth)
    qed
  qed
  then have "positions_disjoint (ps[j := p])"
    by (simp add: positions_disjoint_nth)
  with d ids show ?thesis by (simp add: positions_ok_def)
qed

lemma distinct_map_remove1: "distinct (map f xs) \<Longrightarrow> distinct (map f (remove1 x xs))"
proof (induction xs)
  case Nil
  then show ?case by simp
next
  case (Cons y ys)
  have "set (remove1 x ys) \<subseteq> set ys" by (rule set_remove1_subset)
  with Cons show ?case by auto
qed

lemma sorted_wrt_remove1: "sorted_wrt P xs \<Longrightarrow> sorted_wrt P (remove1 x xs)"
proof (induction xs)
  case Nil
  then show ?case by simp
next
  case (Cons y ys)
  have "set (remove1 x ys) \<subseteq> set ys" by (rule set_remove1_subset)
  with Cons show ?case by auto
qed

lemma positions_ok_remove1: "positions_ok ps \<Longrightarrow> positions_ok (remove1 p ps)"
  by (simp add: positions_ok_def positions_disjoint_def distinct_map_remove1 sorted_wrt_remove1)

lemma add_position_inv:
  assumes "inventory_inv (db dm)"
      and "get_shelf_by_shelf_number dm (pos_ShelfNumber sp) = Some i"
  shows "inventory_inv (db (snd (add_position dm i sp)))"
proof -
  let ?shelf = "Shelves (db dm) ! i"
  from get_shelf_by_shelf_number_Some [OF assms(2)]
  have i: "i < length (Shelves (db dm))" and n: "ShelfNumber ?shelf = pos_ShelfNumber sp"
    by simp_all
  show ?thesis
  proof (cases "fst (add_position dm i sp)")
    case False
    then have "snd (add_position dm i sp) = dm"
      by (auto simp: add_position_def Let_def split: if_splits)
    with assms(1) show ?thesis by simp
  next
    case True
    then have checks: "\<not> position_id_exists dm (ShelfNumber ?shelf) (PositionId sp)"
        "\<not> leds_exists dm (LEDs sp) (pos_ShelfNumber sp)"
      and res: "snd (add_position dm i sp) =
        save_data (assign_Positions i
          (Positions ?shelf @ [sp\<lparr>pos_ShelfNumber := ShelfNumber ?shelf\<rparr>]) dm)"
      by (auto simp: add_position_def Let_def split: if_splits)
    have "positions_ok (Positions ?shelf @ [sp\<lparr>pos_ShelfNumber := ShelfNumber ?shelf\<rparr>])"
    proof (rule positions_ok_append)
      show "positions_ok (Positions ?shelf)"
        by (rule inventory_inv_nth [OF assms(1) i])
      show "PositionId (sp\<lparr>pos_ShelfNumber := ShelfNumber ?shelf\<rparr>)
              \<notin> PositionId ` set (Positions ?shelf)"
        using position_id_exists_False [OF i checks(1)] by simp
      show "\<forall>q\<in>set (Positions ?shelf).
              set (LEDs (sp\<lparr>pos_ShelfNumber := ShelfNumber ?shelf\<rparr>)) \<inter> set (LEDs q) = {}"
        using leds_exists_False [OF assms(2) checks(2)] by simp
    qed
    from inventory_inv_assign_Positions [OF assms(1) i this] res show ?thesis by simp
  qed
qed

lemma update_position_inv:
  assumes "inventory_inv (db dm)"
      and "get_shelf_by_shelf_number dm (pos_ShelfNumber sp) = Some i"
  shows "inventory_inv (db (snd (update_position dm i sp)))"
proof -
  let ?shelf = "Shelves (db dm) ! i"
  from get_shelf_by_shelf_number_Some [OF assms(2)]
  have i: "i < length (Shelves (db dm))" and n: "ShelfNumber ?shelf = pos_ShelfNumber sp"
    by simp_all
  show ?thesis
  proof (cases "fst (update_position dm i sp) = Inr True")
    case False
    then have "snd (update_position dm i sp) = dm"
      by (auto simp: update_position_def Let_def split: if_splits option.splits)
    with assms(1) show ?thesis by simp
  next
    case True
    then obtain i' j where
      checks: "position_id_exists dm (ShelfNumber ?shelf) (PositionId sp)"
        "\<not> leds_exists_exclusive dm sp"
      and look: "get_position_by_shelf_number_and_position_id dm (ShelfNumber ?shelf)
                   (PositionId sp) = Some (i', j)"
      and res: "snd (update_position dm i sp) =
        save_data (assign_Positions i'
          ((Positions (Shelves (db dm) ! i'))[j :=
              (Positions (Shelves (db dm) ! i') ! j)
                \<lparr>pos_ShelfNumber := ShelfNumber ?shelf, LEDs := LEDs sp\<rparr>]) dm)"
      by (auto simp: update_position_def Let_def split: if_splits option.splits)
    from look assms(2) n have i': "i' = i"
      and j: "find_index (\<lambda>position. PositionId position = PositionId sp) (Positions ?shelf)
                = Some j"
      by (auto simp: get_position_by_shelf_number_and_position_id_def
          split: if_splits option.splits)
    from find_index_Some [OF j]
    have jl: "j < length (Positions ?shelf)" and jid: "PositionId (Positions ?shelf ! j) = PositionId sp"
      by simp_all
    let ?p = "(Positions ?shelf ! j)\<lparr>pos_ShelfNumber := ShelfNumber ?shelf, LEDs := LEDs sp\<rparr>"
    have "positions_ok ((Positions ?shelf)[j := ?p])"
    proof (rule positions_ok_update)
      show "positions_ok (Positions ?shelf)"
        by (rule inventory_inv_nth [OF assms(1) i])
      show "j < length (Positions ?shelf)" by (rule jl)
      show "PositionId ?p = PositionId (Positions ?shelf ! j)" by simp
      show "\<forall>q\<in>set (Positions ?shelf).
              PositionId q \<noteq> PositionId ?p \<longrightarrow> set (LEDs ?p) \<inter> set (LEDs q) = {}"
        using leds_exists_exclusive_False [OF assms(2) _ checks(2)] checks(1) n jid
        by simp
    qed
    from inventory_inv_assign_Positions [OF assms(1) i this] res i' show ?thesis by simp
  qed
qed

lemma delete_position_inv:
  assumes "inventory_inv (db dm)" and "i < length (Shelves (db dm))"
  shows "inventory_inv (db (snd (delete_position dm i p)))"
proof (cases "fst (delete_position dm i p)")
  case False
  then have "snd (delete_position dm i p) = dm"
    by (auto simp: delete_position_def Let_def split: if_splits)
  with assms(1) show ?thesis by simp
next
  case True
  then have res: "snd (delete_position dm i p) =
      save_data (assign_Positions i (remove1 p (Positions (Shelves (db dm) ! i))) dm)"
    by (auto simp: delete_position_def Let_def split: if_splits)
  have "positions_ok (remove1 p (Positions (Shelves (db dm) ! i)))"
    by (rule positions_ok_remove1 [OF inventory_inv_nth [OF assms]])
  from inventory_inv_assign_Positions [OF assms this] res show ?thesis by simp
qed

lemma position_call_inv:
  assumes "position_call dm dm'" and "inventory_inv (db dm)"
  shows "inventory_inv (db dm')"
  using assms
proof cases
  case (add shelf_position shelf r)
  with add_position_inv [OF assms(2) add(1)] show ?thesis by simp
next
  case (update shelf_position shelf r')
  with update_position_inv [OF assms(2) update(1)] show ?thesis by simp
next
  case (delete shelf shelf_position r)
  with delete_position_inv [OF assms(2) delete(1), of shelf_position] show ?thesis by simp
qed

lemma position_calls_inv:
  assumes "position_call\<^sup>*\<^sup>* dm dm'" and "inventory_inv (db dm)"
  shows "inventory_inv (db dm')"
  using assms by (induction rule: rtranclp_induct) (auto intro: position_call_inv)

lemma inventory_inv_disjoint:
  assumes "inventory_inv d" and "shelf \<in> set (Shelves d)"
      and "i < length (Positions shelf)" and "j < length (Positions shelf)" and "i \<noteq> j"
  shows "set (LEDs (Positions shelf ! i)) \<inter> set (LEDs (Positions shelf ! j)) = {}"
proof -
  from assms(1,2) have "positions_disjoint (Positions shelf)"
    by (simp add: inventory_inv_def list_all_iff positions_ok_def)
  with assms(3-5) show ?thesis
    by (simp add: positions_disjoint_nth leds_disjoint_def)
qed

lemma add_position_example:
  "add_position dm_with_shelf 0 example_position =
     (True,
      \<lparr>db = \<lparr>Shelves = [example_shelf\<lparr>Positions := [example_position]\<rparr>],
             ESP32s = [example_esp32\<lparr>isUsed := True\<rparr>]\<rparr>,
       json_file = Some \<lparr>Shelves = [example_shelf\<lparr>Positions := [example_position]\<rparr>],
                        ESP32s = [example_esp32\<lparr>isUsed := True\<rparr>]\<rparr>,
       json_file_backup = Some \<lparr>Shelves = [], ESP32s = []\<rparr>\<rparr>)"
  by (simp add: add_position_def dm_with_shelf_eq example_position_def example_shelf_def
      shelf_exists_def position_id_exists_def leds_exists_def get_positions_by_shelf_number_def
      get_shelf_by_shelf_number_def assign_Positions_def assign_Shelves_def save_data_def
      Let_def)

text \<open>The handlers of the Api and \<open>config_put\<close> change the database by such calls only.\<close>

lemma create_position_validate_Inr:
  "create_position_validate dm sp = Inr (mac, i) \<Longrightarrow>
     get_shelf_by_shelf_number dm (pos_ShelfNumber sp) = Some i"
  by (auto simp: create_position_validate_def Let_def split: option.splits if_splits)

lemma update_position_validate_Inr:
  "update_position_validate dm sp = Inr (mac, i) \<Longrightarrow>
     get_shelf_by_shelf_number dm (pos_ShelfNumber sp) = Some i"
  by (auto simp: update_position_validate_def Let_def split: option.splits if_splits)

lemma delete_position_validate_Inr:
  "delete_position_validate dm dp = Inr (mac, i, p) \<Longrightarrow> i < length (Shelves (db dm))"
  by (auto simp: delete_position_validate_def Let_def split: option.splits if_splits
      dest: get_shelf_by_shelf_number_Some)

lemma create_position_is_call:
  assumes "create_position m env sp = Some (r, m')"
  shows "data_manager m' = data_manager m \<or> position_call (data_manager m) (data_manager m')"
proof (cases "create_position_validate (data_manager m) sp")
  case (Inl status)
  with assms show ?thesis by (auto simp: create_position_def)
next
  case (Inr v)
  then obtain mac i where v: "create_position_validate (data_manager m) sp = Inr (mac, i)"
    by (cases v) auto
  note look = create_position_validate_Inr [OF v]
  from assms v obtain e m1 where
    p: "publish_create_update_position m env sp mac True = Some (e, m1)"
    by (auto simp: create_position_def split: option.splits)
  note dm1 = publish_create_update_position_data_manager [OF p]
  obtain ok dm2 where a: "add_position (data_manager m) i sp = (ok, dm2)"
    by (cases "add_position (data_manager m) i sp") auto
  from position_call.add [OF look a]
  have "position_call (data_manager m) dm2" .
  with assms v p dm1 a show ?thesis
    by (auto simp: create_position_def split: sum.splits if_splits bool.splits)
qed

lemma update_position_handler_is_call:
  assumes "update_position_handler m env sp = Some (r, m')"
  shows "data_manager m' = data_manager m \<or> position_call (data_manager m) (data_manager m')"
proof (cases "update_position_validate (data_manager m) sp")
  case (Inl status)
  with assms show ?thesis by (auto simp: update_position_handler_def)
next
  case (Inr v)
  then obtain mac i where v: "update_position_validate (data_manager m) sp = Inr (mac, i)"
    by (cases v) auto
  note look = update_position_validate_Inr [OF v]
  from assms v obtain e m1 where
    p: "publish_create_update_position m env sp mac False = Some (e, m1)"
    by (auto simp: update_position_handler_def split: option.splits)
  note dm1 = publish_create_update_position_data_manager [OF p]
  obtain ok dm2 where a: "update_position (data_manager m) i sp = (ok, dm2)"
    by (cases "update_position (data_manager m) i sp") auto
  from position_call.update [OF look a]
  have "position_call (data_manager m) dm2" .
  with assms v p dm1 a show ?thesis
    by (auto simp: update_position_handler_def split: sum.splits if_splits bool.splits)
qed

lemma delete_position_handler_is_call:
  assumes "delete_position_handler m env dp = Some (r, m')"
  shows "data_manager m' = data_manager m \<or> position_call (data_manager m) (data_manager m')"
proof (cases "delete_position_validate (data_manager m) dp")
  case (Inl status)
  with assms show ?thesis by (auto simp: delete_position_handler_def)
next
  case (Inr v)
  then obtain mac i p where v: "delete_position_validate (data_manager m) dp = Inr (mac, i, p)"
    by (cases v) auto
  note i = delete_position_validate_Inr [OF v]
  obtain ok dm2 where a: "delete_position (data_manager m) i p = (ok, dm2)"
    by (cases "delete_position (data_manager m) i p") auto
  from position_call.delete [OF i a]
  have c: "position_call (data_manager m) dm2" .
  show ?thesis
  proof (cases "bytearray [PositionId p]")
    case None
    with assms v show ?thesis by (simp add: delete_position_handler_def)
  next
    case (Some payload)
    from assms v Some obtain e m1 where
      pw: "publish_with_ack m env TIMEOUT mac ''config_ack''
             (''pbl/'' @ mac @ ''/config/delete_Position'') payload = Some (e, m1)"
      by (auto simp: delete_position_handler_def split: option.splits)
    note dm1 = publish_with_ack_data_manager [OF pw]
    from assms v Some pw dm1 a c show ?thesis
      by (auto simp: delete_position_handler_def split: sum.splits if_splits bool.splits)
  qed
qed

lemma config_put_is_call:
  assumes "config_put m topic payload = (r, m')" and "inventory_inv (db (data_manager m))"
  shows "m' = m \<or>
         (m' = m\<lparr>data_manager := data_manager m'\<rparr> \<and>
          position_call (data_manager m) (data_manager m'))"
proof (cases "m' = m")
  case True
  then show ?thesis by simp
next
  case False
  with assms(1) obtain mac i b bs where
    mac: "topic_mac_address topic = Some mac"
    and i: "get_shelf_by_mac_address (data_manager m) mac = Some i"
    and payload: "payload = b # bs"
    by (auto simp: config_put_def split: option.splits list.splits)
  let ?sp = "\<lparr>pos_ShelfNumber = ShelfNumber (Shelves (db (data_manager m)) ! i),
             PositionId = uint b, LEDs = map uint bs\<rparr>"
  obtain ok dm2 where a: "add_position (data_manager m) i ?sp = (ok, dm2)"
    by (cases "add_position (data_manager m) i ?sp") auto
  from get_shelf_by_mac_address_Some [OF i] assms(2)
  have "get_shelf_by_shelf_number (data_manager m) (pos_ShelfNumber ?sp) = Some i"
    by (simp add: inventory_inv_def get_shelf_by_shelf_number_distinct)
  from position_call.add [OF this a] have "position_call (data_manager m) dm2" .
  with assms(1) mac i payload a False show ?thesis
    by (auto simp: config_put_def Let_def split: if_splits)
qed

section \<open>Operations that leave the assignment flag alone\<close>

text \<open>
  The calls on positions do not touch the devices at all; registering a device and
  setting all devices offline keep \<open>isUsed\<close> of every device that was there.
\<close>

lemma position_call_ESP32s:
  assumes "position_call dm dm'"
  shows "ESP32s (db dm') = ESP32s (db dm)"
  using assms
proof cases
  case (add shelf_position shelf r)
  then show ?thesis
    by (auto simp: add_position_def assign_Positions_def assign_Shelves_def save_data_def Let_def
        split: if_splits)
next
  case (update shelf_position shelf r')
  then show ?thesis
    by (auto simp: update_position_def assign_Positions_def assign_Shelves_def save_data_def
        Let_def split: if_splits option.splits)
next
  case (delete shelf shelf_position r)
  then show ?thesis
    by (auto simp: delete_position_def assign_Positions_def assign_Shelves_def save_data_def
        Let_def split: if_splits)
qed

lemma add_esp32_isUsed:
  "map isUsed (ESP32s (db (snd (add_esp32 dm esp32))))
     = map isUsed (ESP32s (db dm)) @ (if fst (add_esp32 dm esp32) then [isUsed esp32] else [])"
  by (simp add: add_esp32_def save_data_def)

lemma set_all_esp32s_offline_isUsed:
  "map isUsed (ESP32s (db (set_all_esp32s_offline dm))) = map isUsed (ESP32s (db dm))"
  by (simp add: set_all_esp32s_offline_def comp_def)

lemma receive_register_isUsed:
  "take (length (ESP32s (db (data_manager m))))
     (map isUsed (ESP32s (db (data_manager (receive_register m mac)))))
   = map isUsed (ESP32s (db (data_manager m)))"
  by (auto simp: receive_register_def add_esp32_def save_data_def assign_isOnline_def
      map_update list_update_same_conv get_esp32_by_mac_address_def
      split: option.splits if_splits dest: find_index_Some)

section \<open>The assignment invariant under the operations of the DataManager\<close>

text \<open>
  \<open>add_shelf\<close> and \<open>delete_shelf_by_shelf_number\<close> themselves keep the assignment in
  order; the state that \<open>getESP32\<close> produces in the example is not in order.
\<close>

lemma find_find_index: "find P xs = map_option (nth xs) (find_index P xs)"
  by (induction xs) (auto simp: option.map_comp comp_def)

lemma get_esp32_by_mac_address_Some:
  "get_esp32_by_mac_address dm mac = Some e \<Longrightarrow>
     e < length (ESP32s (db dm)) \<and> esp_Mac_Address (ESP32s (db dm) ! e) = mac"
  by (auto simp: get_esp32_by_mac_address_def split: if_splits dest: find_index_Some)

lemma distinct_map_eq:
  "distinct (map f xs) \<Longrightarrow> x \<in> set xs \<Longrightarrow> y \<in> set xs \<Longrightarrow> f x = f y \<Longrightarrow> x = y"
  by (auto simp: distinct_map inj_on_def)

lemma used_device_kept:
  assumes "list_ex (\<lambda>esp32. esp_Mac_Address esp32 = mac \<and> isUsed esp32) es"
      and "e < length es" and "v \<or> esp_Mac_Address (es ! e) \<noteq> mac"
  shows "list_ex (\<lambda>esp32. esp_Mac_Address esp32 = mac \<and> isUsed esp32)
           (es[e := (es ! e)\<lparr>isUsed := v\<rparr>])"
proof -
  from assms(1) obtain k where k: "k < length es" "esp_Mac_Address (es ! k) = mac" "isUsed (es ! k)"
    by (auto simp: list_ex_iff in_set_conv_nth)
  let ?es = "es[e := (es ! e)\<lparr>isUsed := v\<rparr>]"
  have "?es ! k \<in> set ?es" using k(1) by (intro nth_mem) simp
  moreover have "esp_Mac_Address (?es ! k) = mac \<and> isUsed (?es ! k)"
    using k assms(2,3) by (cases "k = e") auto
  ultimately show ?thesis
    unfolding list_ex_iff by blast
qed

lemma add_shelf_assignment_inv:
  assumes "assignment_inv (db dm)"
  shows "assignment_inv (db (snd (add_shelf dm shelf)))"
proof (cases "fst (add_shelf dm shelf)")
  case False
  then have "snd (add_shelf dm shelf) = dm"
    by (auto simp: add_shelf_def Let_def split: if_splits option.splits)
  with assms show ?thesis by simp
next
  case True
  let ?es = "ESP32s (db dm)" and ?ss = "Shelves (db dm)"
  from True obtain e where e: "get_esp32_by_mac_address dm (Mac_Address shelf) = Some e"
    and free: "\<not> isUsed (?es ! e)"
    and res: "db (snd (add_shelf dm shelf)) =
                \<lparr>Shelves = ?ss @ [shelf], ESP32s = ?es[e := (?es ! e)\<lparr>isUsed := True\<rparr>]\<rparr>"
    by (auto simp: add_shelf_def Let_def assign_isUsed_def assign_Shelves_def save_data_def
        split: if_splits option.splits)
  from get_esp32_by_mac_address_Some [OF e]
  have el: "e < length ?es" and em: "esp_Mac_Address (?es ! e) = Mac_Address shelf" by simp_all
  from assms have de: "distinct (map esp_Mac_Address ?es)" and ds: "distinct (map Mac_Address ?ss)"
    and used: "\<And>s. s \<in> set ?ss \<Longrightarrow>
                 list_ex (\<lambda>esp32. esp_Mac_Address esp32 = Mac_Address s \<and> isUsed esp32) ?es"
    by (simp_all add: assignment_inv_def list_all_iff)
  have "map esp_Mac_Address (?es[e := (?es ! e)\<lparr>isUsed := True\<rparr>]) = map esp_Mac_Address ?es"
    using el by (simp add: map_update list_update_same_conv)
  with de have de': "distinct (map esp_Mac_Address (?es[e := (?es ! e)\<lparr>isUsed := True\<rparr>]))"
    by simp
  have fresh: "Mac_Address shelf \<notin> Mac_Address ` set ?ss"
  proof
    assume "Mac_Address shelf \<in> Mac_Address ` set ?ss"
    then obtain s where s: "s \<in> set ?ss" "Mac_Address s = Mac_Address shelf" by auto
    from used [OF s(1)] obtain x where x: "x \<in> set ?es" "esp_Mac_Address x = Mac_Address s"
      "isUsed x" by (auto simp: list_ex_iff)
    from el have "?es ! e \<in> set ?es" by simp
    from distinct_map_eq [OF de x(1) this] x(2) s(2) em have "x = ?es ! e" by simp
    with x(3) free show False by simp
  qed
  have old: "list_ex (\<lambda>esp32. esp_Mac_Address esp32 = Mac_Address s \<and> isUsed esp32)
               (?es[e := (?es ! e)\<lparr>isUsed := True\<rparr>])" if "s \<in> set ?ss" for s
    using used_device_kept [OF used [OF that] el, of True] by simp
  have new: "list_ex (\<lambda>esp32. esp_Mac_Address esp32 = Mac_Address shelf \<and> isUsed esp32)
               (?es[e := (?es ! e)\<lparr>isUsed := True\<rparr>])"
  proof -
    let ?es' = "?es[e := (?es ! e)\<lparr>isUsed := True\<rparr>]"
    have "?es' ! e \<in> set ?es'" using el by (intro nth_mem) simp
    moreover have "esp_Mac_Address (?es' ! e) = Mac_Address shelf \<and> isUsed (?es' ! e)"
      using el em by simp
    ultimately show ?thesis unfolding list_ex_iff by blast
  qed
  from de' ds fresh old new show ?thesis
    by (simp add: res assignment_inv_def list_all_iff)
qed

lemma delete_shelf_assignment_inv:
  assumes "assignment_inv (db dm)"
  shows "assignment_inv (db (snd (delete_shelf_by_shelf_number dm n)))"
proof (cases "fst (delete_shelf_by_shelf_number dm n)")
  case False
  then have "snd (delete_shelf_by_shelf_number dm n) = dm"
    by (auto simp: delete_shelf_by_shelf_number_def Let_def split: if_splits option.splits)
  with assms show ?thesis by simp
next
  case True
  let ?es = "ESP32s (db dm)" and ?ss = "Shelves (db dm)"
  from True obtain i mac e where i: "get_shelf_by_shelf_number dm n = Some i"
    and mac: "get_mac_address_by_shelf_number dm n = Some mac"
    and e: "get_esp32_by_mac_address dm mac = Some e"
    and res: "db (snd (delete_shelf_by_shelf_number dm n)) =
                \<lparr>Shelves = remove1 (?ss ! i) ?ss, ESP32s = ?es[e := (?es ! e)\<lparr>isUsed := False\<rparr>]\<rparr>"
    by (auto simp: delete_shelf_by_shelf_number_def Let_def assign_isUsed_def assign_Shelves_def
        save_data_def split: if_splits option.splits)
  from get_esp32_by_mac_address_Some [OF e]
  have el: "e < length ?es" and em: "esp_Mac_Address (?es ! e) = mac" by simp_all
  from get_shelf_by_shelf_number_Some [OF i] have il: "i < length ?ss" by simp
  from i mac have m: "mac = Mac_Address (?ss ! i)"
    by (auto simp: get_shelf_by_shelf_number_def get_mac_address_by_shelf_number_def
        find_find_index split: if_splits)
  from assms have de: "distinct (map esp_Mac_Address ?es)" and ds: "distinct (map Mac_Address ?ss)"
    and used: "\<And>s. s \<in> set ?ss \<Longrightarrow>
                 list_ex (\<lambda>esp32. esp_Mac_Address esp32 = Mac_Address s \<and> isUsed esp32) ?es"
    by (simp_all add: assignment_inv_def list_all_iff)
  have "map esp_Mac_Address (?es[e := (?es ! e)\<lparr>isUsed := False\<rparr>]) = map esp_Mac_Address ?es"
    using el by (simp add: map_update list_update_same_conv)
  with de have de': "distinct (map esp_Mac_Address (?es[e := (?es ! e)\<lparr>isUsed := False\<rparr>]))"
    by simp
  from ds have dss: "distinct ?ss" by (simp add: distinct_map)
  have rest: "list_ex (\<lambda>esp32. esp_Mac_Address esp32 = Mac_Address s \<and> isUsed esp32)
                (?es[e := (?es ! e)\<lparr>isUsed := False\<rparr>])"
    if "s \<in> set (remove1 (?ss ! i) ?ss)" for s
  proof -
    from that dss have s: "s \<in> set ?ss" "s \<noteq> ?ss ! i" by simp_all
    from il have "?ss ! i \<in> set ?ss" by simp
    from distinct_map_eq [OF ds s(1) this] s(2) have "Mac_Address s \<noteq> mac"
      unfolding m by blast
    with used_device_kept [OF used [OF s(1)] el, of False] em show ?thesis by simp
  qed
  from de' ds rest show ?thesis
    by (simp add: res assignment_inv_def list_all_iff distinct_map_remove1)
qed

lemma get_esp32_config_breaks_assignment_inv:
  "assignment_inv (db (data_manager mqtt_example)) \<and>
   \<not> assignment_inv (db (data_manager mqtt_double_assigned))"
  by (simp add: assignment_inv_def mqtt_example_def dm_with_shelf_eq mqtt_double_assigned_def
      example_shelf_def second_shelf_def example_esp32_def)

section \<open>LED-disjointness: what the calls accept, and the invariant\<close>

lemma same_number_same_shelf:
  assumes "distinct (map ShelfNumber ss)" and "i < length ss" and "s \<in> set ss"
      and "ShelfNumber s = ShelfNumber (ss ! i)"
  shows "s = ss ! i"
  using assms distinct_map_eq [of ShelfNumber ss s "ss ! i"] by simp

lemma position_id_exists_iff:
  assumes "inventory_inv (db dm)" and "get_shelf_by_shelf_number dm n = Some i"
  shows "position_id_exists dm n pid
           \<longleftrightarrow> pid \<in> PositionId ` set (Positions (Shelves (db dm) ! i))"
proof -
  let ?ss = "Shelves (db dm)"
  from get_shelf_by_shelf_number_Some [OF assms(2)]
  have i: "i < length ?ss" and n: "ShelfNumber (?ss ! i) = n"
    and ex: "shelf_exists dm n" by simp_all
  from assms(1) have d: "distinct (map ShelfNumber ?ss)"
    by (simp add: inventory_inv_def)
  have def: "position_id_exists dm n pid
               \<longleftrightarrow> (\<exists>s\<in>set ?ss. ShelfNumber s = n \<and> pid \<in> PositionId ` set (Positions s))"
    using ex by (simp add: position_id_exists_def list_ex_iff image_iff) metis
  show ?thesis
  proof
    assume "position_id_exists dm n pid"
    with def obtain s where s: "s \<in> set ?ss" "ShelfNumber s = n"
      "pid \<in> PositionId ` set (Positions s)" by blast
    from same_number_same_shelf [OF d i s(1)] s(2) n have "s = ?ss ! i" by simp
    with s(3) show "pid \<in> PositionId ` set (Positions (?ss ! i))" by simp
  next
    assume "pid \<in> PositionId ` set (Positions (?ss ! i))"
    moreover have "?ss ! i \<in> set ?ss" using i by simp
    ultimately show "position_id_exists dm n pid"
      unfolding def using n by blast
  qed
qed

lemma leds_exists_iff:
  assumes "get_shelf_by_shelf_number dm n = Some i"
  shows "leds_exists dm leds n
           \<longleftrightarrow> (\<exists>q\<in>set (Positions (Shelves (db dm) ! i)). set leds \<inter> set (LEDs q) \<noteq> {})"
  using assms get_shelf_by_shelf_number_Some [OF assms]
  by (auto simp: leds_exists_def get_positions_by_shelf_number_def list_ex_iff)

lemma leds_exists_exclusive_iff:
  assumes "get_shelf_by_shelf_number dm (pos_ShelfNumber sp) = Some i"
      and "position_id_exists dm (pos_ShelfNumber sp) (PositionId sp)"
  shows "leds_exists_exclusive dm sp
           \<longleftrightarrow> (\<exists>q\<in>set (Positions (Shelves (db dm) ! i)).
                  PositionId q \<noteq> PositionId sp \<and> set (LEDs sp) \<inter> set (LEDs q) \<noteq> {})"
  using assms get_shelf_by_shelf_number_Some [OF assms(1)]
  by (auto simp: leds_exists_exclusive_def get_positions_by_shelf_number_def list_ex_iff)

lemma Shelves_assign_Positions:
  "i < length (Shelves (db dm)) \<Longrightarrow>
     Positions (Shelves (db (save_data (assign_Positions i ps dm))) ! i) = ps"
  by (simp add: assign_Positions_def assign_Shelves_def save_data_def)

lemma add_position_accepts_iff:
  assumes "inventory_inv (db dm)"
      and "get_shelf_by_shelf_number dm (pos_ShelfNumber sp) = Some i"
  shows "fst (add_position dm i sp)
           \<longleftrightarrow> PositionId sp \<notin> PositionId ` set (Positions (Shelves (db dm) ! i)) \<and>
               0 \<le> PositionId sp \<and> PositionId sp \<le> 255 \<and> LEDs sp \<noteq> [] \<and>
               (\<forall>q\<in>set (Positions (Shelves (db dm) ! i)). set (LEDs sp) \<inter> set (LEDs q) = {})"
proof -
  from get_shelf_by_shelf_number_Some [OF assms(2)]
  have n: "ShelfNumber (Shelves (db dm) ! i) = pos_ShelfNumber sp"
    and ex: "shelf_exists dm (pos_ShelfNumber sp)" by simp_all
  have "fst (add_position dm i sp)
          \<longleftrightarrow> \<not> position_id_exists dm (pos_ShelfNumber sp) (PositionId sp) \<and>
              0 \<le> PositionId sp \<and> PositionId sp \<le> 255 \<and> LEDs sp \<noteq> [] \<and>
              \<not> leds_exists dm (LEDs sp) (pos_ShelfNumber sp)"
    using n ex by (simp add: add_position_def Let_def not_less)
  also have "\<dots> \<longleftrightarrow> PositionId sp \<notin> PositionId ` set (Positions (Shelves (db dm) ! i)) \<and>
               0 \<le> PositionId sp \<and> PositionId sp \<le> 255 \<and> LEDs sp \<noteq> [] \<and>
               (\<forall>q\<in>set (Positions (Shelves (db dm) ! i)). set (LEDs sp) \<inter> set (LEDs q) = {})"
    unfolding position_id_exists_iff [OF assms] leds_exists_iff [OF assms(2)] by blast
  finally show ?thesis .
qed

lemma add_position_result:
  assumes "get_shelf_by_shelf_number dm (pos_ShelfNumber sp) = Some i"
      and "fst (add_position dm i sp)"
  shows "Positions (Shelves (db (snd (add_position dm i sp))) ! i)
           = Positions (Shelves (db dm) ! i) @ [sp]"
proof -
  from get_shelf_by_shelf_number_Some [OF assms(1)]
  have i: "i < length (Shelves (db dm))"
    and n: "ShelfNumber (Shelves (db dm) ! i) = pos_ShelfNumber sp" by simp_all
  from assms(2) have "snd (add_position dm i sp) =
      save_data (assign_Positions i
        (Positions (Shelves (db dm) ! i)
           @ [sp\<lparr>pos_ShelfNumber := ShelfNumber (Shelves (db dm) ! i)\<rparr>]) dm)"
    by (auto simp: add_position_def Let_def split: if_splits)
  with Shelves_assign_Positions [OF i] n show ?thesis by simp
qed

lemma update_by_id:
  assumes "distinct (map g xs)" and "j < length xs"
  shows "xs[j := h (xs ! j)] = map (\<lambda>x. if g x = g (xs ! j) then h x else x) xs"
proof (rule nth_equalityI)
  show "length (xs[j := h (xs ! j)]) = length (map (\<lambda>x. if g x = g (xs ! j) then h x else x) xs)"
    by simp
next
  fix k assume "k < length (xs[j := h (xs ! j)])"
  then have k: "k < length xs" by simp
  show "xs[j := h (xs ! j)] ! k = map (\<lambda>x. if g x = g (xs ! j) then h x else x) xs ! k"
  proof (cases "k = j")
    case True
    with k show ?thesis by simp
  next
    case False
    with assms k have "g (xs ! k) \<noteq> g (xs ! j)"
      by (simp add: distinct_conv_nth)
    with False k show ?thesis by simp
  qed
qed

lemma update_position_accepts_iff:
  assumes "inventory_inv (db dm)"
      and "get_shelf_by_shelf_number dm (pos_ShelfNumber sp) = Some i"
  shows "fst (update_position dm i sp) = Inr True
           \<longleftrightarrow> PositionId sp \<in> PositionId ` set (Positions (Shelves (db dm) ! i)) \<and>
               LEDs sp \<noteq> [] \<and>
               (\<forall>q\<in>set (Positions (Shelves (db dm) ! i)).
                  PositionId q \<noteq> PositionId sp \<longrightarrow> set (LEDs sp) \<inter> set (LEDs q) = {})"
proof -
  let ?ps = "Positions (Shelves (db dm) ! i)"
  from get_shelf_by_shelf_number_Some [OF assms(2)]
  have n: "ShelfNumber (Shelves (db dm) ! i) = pos_ShelfNumber sp"
    and ex: "shelf_exists dm (pos_ShelfNumber sp)" by simp_all
  note pid = position_id_exists_iff [OF assms, of "PositionId sp"]
  show ?thesis
  proof (cases "position_id_exists dm (pos_ShelfNumber sp) (PositionId sp)")
    case False
    then have "fst (update_position dm i sp) = Inr False"
      using n ex by (simp add: update_position_def Let_def)
    with False pid show ?thesis by simp
  next
    case True
    with pid have "list_ex (\<lambda>position. PositionId position = PositionId sp) ?ps"
      by (auto simp: list_ex_iff)
    then have "find_index (\<lambda>position. PositionId position = PositionId sp) ?ps \<noteq> None"
      by (simp add: find_index_None)
    then obtain j where
      "find_index (\<lambda>position. PositionId position = PositionId sp) ?ps = Some j"
      by blast
    then have look: "get_position_by_shelf_number_and_position_id dm (pos_ShelfNumber sp)
                       (PositionId sp) = Some (i, j)"
      using ex assms(2) by (simp add: get_position_by_shelf_number_and_position_id_def)
    have "fst (update_position dm i sp) = Inr True
            \<longleftrightarrow> LEDs sp \<noteq> [] \<and> \<not> leds_exists_exclusive dm sp"
      using True look n ex by (simp add: update_position_def Let_def)
    also have "\<dots> \<longleftrightarrow> LEDs sp \<noteq> [] \<and>
               (\<forall>q\<in>set ?ps. PositionId q \<noteq> PositionId sp \<longrightarrow> set (LEDs sp) \<inter> set (LEDs q) = {})"
      unfolding leds_exists_exclusive_iff [OF assms(2) True] by blast
    finally show ?thesis using True pid by simp
  qed
qed

lemma update_position_result:
  assumes "inventory_inv (db dm)"
      and "get_shelf_by_shelf_number dm (pos_ShelfNumber sp) = Some i"
      and "fst (update_position dm i sp) = Inr True"
  shows "Positions (Shelves (db (snd (update_position dm i sp))) ! i)
           = map (\<lambda>q. if PositionId q = PositionId sp
                       then q\<lparr>pos_ShelfNumber := pos_ShelfNumber sp, LEDs := LEDs sp\<rparr> else q)
               (Positions (Shelves (db dm) ! i))"
proof -
  let ?ps = "Positions (Shelves (db dm) ! i)"
  from get_shelf_by_shelf_number_Some [OF assms(2)]
  have i: "i < length (Shelves (db dm))"
    and n: "ShelfNumber (Shelves (db dm) ! i) = pos_ShelfNumber sp" by simp_all
  from assms(3) obtain i' j where
    look: "get_position_by_shelf_number_and_position_id dm
             (ShelfNumber (Shelves (db dm) ! i)) (PositionId sp) = Some (i', j)"
    and res: "snd (update_position dm i sp) =
        save_data (assign_Positions i'
          ((Positions (Shelves (db dm) ! i'))[j :=
              (Positions (Shelves (db dm) ! i') ! j)
                \<lparr>pos_ShelfNumber := ShelfNumber (Shelves (db dm) ! i), LEDs := LEDs sp\<rparr>]) dm)"
    by (auto simp: update_position_def Let_def split: if_splits option.splits)
  from look assms(2) n have i': "i' = i"
    and j: "find_index (\<lambda>position. PositionId position = PositionId sp) ?ps = Some j"
    by (auto simp: get_position_by_shelf_number_and_position_id_def
        split: if_splits option.splits)
  from find_index_Some [OF j]
  have jl: "j < length ?ps" and jid: "PositionId (?ps ! j) = PositionId sp" by simp_all
  from inventory_inv_nth [OF assms(1) i] have d: "distinct (map PositionId ?ps)"
    by (simp add: positions_ok_def)
  from update_by_id [OF d jl,
      of "\<lambda>q. q\<lparr>pos_ShelfNumber := pos_ShelfNumber sp, LEDs := LEDs sp\<rparr>"] jid
  have "?ps[j := (?ps ! j)\<lparr>pos_ShelfNumber := pos_ShelfNumber sp, LEDs := LEDs sp\<rparr>]
          = map (\<lambda>q. if PositionId q = PositionId sp
                       then q\<lparr>pos_ShelfNumber := pos_ShelfNumber sp, LEDs := LEDs sp\<rparr> else q) ?ps"
    by simp
  with res i' n Shelves_assign_Positions [OF i] show ?thesis by simp
qed

lemma dm_with_position_eq:
  "dm_with_position =
     \<lparr>db = \<lparr>Shelves = [example_shelf\<lparr>Positions := [example_position]\<rparr>],
            ESP32s = [example_esp32\<lparr>isUsed := True\<rparr>]\<rparr>,
      json_file = Some \<lparr>Shelves = [example_shelf\<lparr>Positions := [example_position]\<rparr>],
                       ESP32s = [example_esp32\<lparr>isUsed := True\<rparr>]\<rparr>,
      json_file_backup = Some \<lparr>Shelves = [], ESP32s = []\<rparr>\<rparr>"
  by (simp add: dm_with_position_def add_position_example)

lemma add_second_position:
  "add_position dm_with_position 0 second_position =
     (True,
      \<lparr>db = \<lparr>Shelves = [example_shelf\<lparr>Positions := [example_position, second_position]\<rparr>],
             ESP32s = [example_esp32\<lparr>isUsed := True\<rparr>]\<rparr>,
       json_file =
         Some \<lparr>Shelves = [example_shelf\<lparr>Positions := [example_position, second_position]\<rparr>],
               ESP32s = [example_esp32\<lparr>isUsed := True\<rparr>]\<rparr>,
       json_file_backup = Some \<lparr>Shelves = [], ESP32s = []\<rparr>\<rparr>)"
  by (simp add: add_position_def dm_with_position_eq example_position_def second_position_def
      example_shelf_def shelf_exists_def position_id_exists_def leds_exists_def
      get_positions_by_shelf_number_def get_shelf_by_shelf_number_def assign_Positions_def
      assign_Shelves_def save_data_def Let_def)

lemma add_stray_position:
  "add_position dm_with_position 0 stray_position =
     (True,
      \<lparr>db = \<lparr>Shelves = [example_shelf\<lparr>Positions :=
                          [example_position, stray_position\<lparr>pos_ShelfNumber := 7\<rparr>]\<rparr>],
             ESP32s = [example_esp32\<lparr>isUsed := True\<rparr>]\<rparr>,
       json_file =
         Some \<lparr>Shelves = [example_shelf\<lparr>Positions :=
                             [example_position, stray_position\<lparr>pos_ShelfNumber := 7\<rparr>]\<rparr>],
               ESP32s = [example_esp32\<lparr>isUsed := True\<rparr>]\<rparr>,
       json_file_backup = Some \<lparr>Shelves = [], ESP32s = []\<rparr>\<rparr>)"
  by (simp add: add_position_def dm_with_position_eq example_position_def stray_position_def
      example_shelf_def shelf_exists_def position_id_exists_def leds_exists_def
      get_positions_by_shelf_number_def get_shelf_by_shelf_number_def assign_Positions_def
      assign_Shelves_def save_data_def Let_def)

text \<open>
  C2, as claimed: in every reachable state the positions of a shelf are pairwise
  LED-disjoint, before and after any sequence of calls of \<open>add_position\<close>,
  \<open>update_position\<close> and \<open>delete_position\<close>.  First: \<open>createShelf\<close> stores the shelf it
  is given with the positions it comes with; a request for a shelf with two positions on
  LED 5 is answered with 200, and the database then holds that shelf.  Second:
  \<open>add_position\<close> looks for the LEDs in the shelf that the \<^emph>\<open>position\<close> names; called for
  shelf 7, whose position 3 has LEDs 10 and 20, with a position that names shelf 99, it
  adds the position with LED 10 to shelf 7.
\<close>

theorem led_disjointness_broken_counterexample:
  "fst (create_shelf mqtt_registered overlapping_shelf) = 200 \<and>
   Shelves (db (data_manager (snd (create_shelf mqtt_registered overlapping_shelf))))
     = [overlapping_shelf] \<and>
   PositionId (Positions overlapping_shelf ! 0) \<noteq> PositionId (Positions overlapping_shelf ! 1) \<and>
   set (LEDs (Positions overlapping_shelf ! 0)) \<inter> set (LEDs (Positions overlapping_shelf ! 1))
     \<noteq> {} \<and>
   inventory_inv (db dm_with_position) \<and>
   Shelves (db dm_with_position) = [example_shelf\<lparr>Positions := [example_position]\<rparr>] \<and>
   fst (add_position dm_with_position 0 stray_position) \<and>
   Positions (Shelves (db (snd (add_position dm_with_position 0 stray_position))) ! 0)
     = [example_position, stray_position\<lparr>pos_ShelfNumber := 7\<rparr>] \<and>
   PositionId example_position \<noteq> PositionId stray_position \<and>
   set (LEDs example_position) \<inter> set (LEDs stray_position) \<noteq> {}"
proof -
  have a: "fst (create_shelf mqtt_registered overlapping_shelf) = 200 \<and>
     Shelves (db (data_manager (snd (create_shelf mqtt_registered overlapping_shelf))))
       = [overlapping_shelf] \<and>
     PositionId (Positions overlapping_shelf ! 0) \<noteq> PositionId (Positions overlapping_shelf ! 1) \<and>
     set (LEDs (Positions overlapping_shelf ! 0)) \<inter> set (LEDs (Positions overlapping_shelf ! 1))
       \<noteq> {}"
    by (simp add: create_shelf_def mqtt_registered_def dm_registered_eq overlapping_shelf_def
        example_esp32_def shelf_exists_def mac_address_exists_def get_esp32_by_mac_address_def
        add_shelf_def assign_isUsed_def assign_Shelves_def save_data_def Let_def)
  have b: "inventory_inv (db dm_with_position) \<and>
     Shelves (db dm_with_position) = [example_shelf\<lparr>Positions := [example_position]\<rparr>]"
    by (simp add: dm_with_position_eq inventory_inv_def positions_ok_def positions_disjoint_def
        example_shelf_def)
  have c: "fst (add_position dm_with_position 0 stray_position) \<and>
     Positions (Shelves (db (snd (add_position dm_with_position 0 stray_position))) ! 0)
       = [example_position, stray_position\<lparr>pos_ShelfNumber := 7\<rparr>] \<and>
     PositionId example_position \<noteq> PositionId stray_position \<and>
     set (LEDs example_position) \<inter> set (LEDs stray_position) \<noteq> {}"
  proof -
    have "fst (add_position dm_with_position 0 stray_position) \<and>
       Positions (Shelves (db (snd (add_position dm_with_position 0 stray_position))) ! 0)
         = [example_position, stray_position\<lparr>pos_ShelfNumber := 7\<rparr>]"
      by (simp add: add_stray_position)
    moreover have "PositionId example_position \<noteq> PositionId stray_position \<and>
       set (LEDs example_position) \<inter> set (LEDs stray_position) \<noteq> {}"
      by (simp add: example_position_def stray_position_def)
    ultimately show ?thesis by simp
  qed
  from a b c show ?thesis by simp
qed

text \<open>
  C2, amended: from a database in which shelf numbers are distinct, position ids are
  distinct within each shelf and the LED sets of every two distinct positions of a shelf
  are disjoint, the same holds after any sequence of calls of \<open>add_position\<close>,
  \<open>update_position\<close> and \<open>delete_position\<close> made for the shelf that the database holds
  under the shelf number of the position.  In every such state, such a call of
  \<open>add_position\<close> succeeds exactly when the id is new in the shelf and in 0..255 and the
  LEDs are not empty and disjoint from those of every position of the shelf, and appends
  the position; such a call of \<open>update_position\<close> succeeds exactly when the shelf has a
  position with the id and the LEDs are not empty and disjoint from those of every
  position of the shelf except the one being replaced, and replaces the LEDs of that one.
\<close>

theorem positions_stay_led_disjoint:
  assumes "inventory_inv (db dm)" and "position_call\<^sup>*\<^sup>* dm dm'"
  shows "inventory_inv (db dm') \<and>
         (\<forall>shelf\<in>set (Shelves (db dm')).
            \<forall>i<length (Positions shelf). \<forall>j<length (Positions shelf).
              i \<noteq> j \<longrightarrow> set (LEDs (Positions shelf ! i)) \<inter> set (LEDs (Positions shelf ! j)) = {}) \<and>
         (\<forall>shelf sp. get_shelf_by_shelf_number dm' (pos_ShelfNumber sp) = Some shelf \<longrightarrow>
            (fst (add_position dm' shelf sp)
               \<longleftrightarrow> PositionId sp \<notin> PositionId ` set (Positions (Shelves (db dm') ! shelf)) \<and>
                   0 \<le> PositionId sp \<and> PositionId sp \<le> 255 \<and> LEDs sp \<noteq> [] \<and>
                   (\<forall>q\<in>set (Positions (Shelves (db dm') ! shelf)).
                      set (LEDs sp) \<inter> set (LEDs q) = {})) \<and>
            (fst (add_position dm' shelf sp)
               \<longrightarrow> Positions (Shelves (db (snd (add_position dm' shelf sp))) ! shelf)
                     = Positions (Shelves (db dm') ! shelf) @ [sp]) \<and>
            (fst (update_position dm' shelf sp) = Inr True
               \<longleftrightarrow> PositionId sp \<in> PositionId ` set (Positions (Shelves (db dm') ! shelf)) \<and>
                   LEDs sp \<noteq> [] \<and>
                   (\<forall>q\<in>set (Positions (Shelves (db dm') ! shelf)).
                      PositionId q \<noteq> PositionId sp \<longrightarrow> set (LEDs sp) \<inter> set (LEDs q) = {})) \<and>
            (fst (update_position dm' shelf sp) = Inr True
               \<longrightarrow> Positions (Shelves (db (snd (update_position dm' shelf sp))) ! shelf)
                     = map (\<lambda>q. if PositionId q = PositionId sp
                                 then q\<lparr>pos_ShelfNumber := pos_ShelfNumber sp, LEDs := LEDs sp\<rparr>
                                 else q)
                         (Positions (Shelves (db dm') ! shelf))))"
proof -
  have inv: "inventory_inv (db dm')"
    by (rule position_calls_inv [OF assms(2,1)])
  have pair: "\<forall>shelf\<in>set (Shelves (db dm')).
            \<forall>i<length (Positions shelf). \<forall>j<length (Positions shelf).
              i \<noteq> j \<longrightarrow> set (LEDs (Positions shelf ! i)) \<inter> set (LEDs (Positions shelf ! j)) = {}"
    using inventory_inv_disjoint [OF inv] by blast
  have calls: "(fst (add_position dm' shelf sp)
               \<longleftrightarrow> PositionId sp \<notin> PositionId ` set (Positions (Shelves (db dm') ! shelf)) \<and>
                   0 \<le> PositionId sp \<and> PositionId sp \<le> 255 \<and> LEDs sp \<noteq> [] \<and>
                   (\<forall>q\<in>set (Positions (Shelves (db dm') ! shelf)).
                      set (LEDs sp) \<inter> set (LEDs q) = {})) \<and>
            (fst (add_position dm' shelf sp)
               \<longrightarrow> Positions (Shelves (db (snd (add_position dm' shelf sp))) ! shelf)
                     = Positions (Shelves (db dm') ! shelf) @ [sp]) \<and>
            (fst (update_position dm' shelf sp) = Inr True
               \<longleftrightarrow> PositionId sp \<in> PositionId ` set (Positions (Shelves (db dm') ! shelf)) \<and>
                   LEDs sp \<noteq> [] \<and>
                   (\<forall>q\<in>set (Positions (Shelves (db dm') ! shelf)).
                      PositionId q \<noteq> PositionId sp \<longrightarrow> set (LEDs sp) \<inter> set (LEDs q) = {})) \<and>
            (fst (update_position dm' shelf sp) = Inr True
               \<longrightarrow> Positions (Shelves (db (snd (update_position dm' shelf sp))) ! shelf)
                     = map (\<lambda>q. if PositionId q = PositionId sp
                                 then q\<lparr>pos_ShelfNumber := pos_ShelfNumber sp, LEDs := LEDs sp\<rparr>
                                 else q)
                         (Positions (Shelves (db dm') ! shelf)))"
    if look: "get_shelf_by_shelf_number dm' (pos_ShelfNumber sp) = Some shelf" for shelf sp
    using add_position_accepts_iff [OF inv look] add_position_result [OF look]
      update_position_accepts_iff [OF inv look] update_position_result [OF inv look]
    by (intro conjI impI)
  from inv pair calls show ?thesis by (intro conjI allI impI) blast+
qed

lemma dm_two_positions_eq:
  "dm_two_positions =
     \<lparr>db = \<lparr>Shelves = [example_shelf\<lparr>Positions := [example_position, second_position]\<rparr>],
            ESP32s = [example_esp32\<lparr>isUsed := True\<rparr>]\<rparr>,
      json_file =
        Some \<lparr>Shelves = [example_shelf\<lparr>Positions := [example_position, second_position]\<rparr>],
              ESP32s = [example_esp32\<lparr>isUsed := True\<rparr>]\<rparr>,
      json_file_backup = Some \<lparr>Shelves = [], ESP32s = []\<rparr>\<rparr>"
  by (simp add: dm_two_positions_def add_second_position)

theorem positions_stay_led_disjoint_witness:
  "inventory_inv (db dm_with_shelf) \<and>
   position_call\<^sup>*\<^sup>* dm_with_shelf dm_two_positions \<and>
   Shelves (db dm_two_positions)
     = [example_shelf\<lparr>Positions := [example_position, second_position]\<rparr>] \<and>
   inventory_inv (db dm_two_positions) \<and>
   set (LEDs example_position) \<inter> set (LEDs second_position) = {} \<and>
   get_shelf_by_shelf_number dm_two_positions (pos_ShelfNumber updated_position) = Some 0 \<and>
   set (LEDs updated_position) \<inter> set (LEDs example_position) \<noteq> {} \<and>
   fst (update_position dm_two_positions 0 updated_position) = Inr True \<and>
   Positions (Shelves (db (snd (update_position dm_two_positions 0 updated_position))) ! 0)
     = [updated_position, second_position] \<and>
   fst (update_position dm_two_positions 0 (updated_position\<lparr>LEDs := [30]\<rparr>)) \<noteq> Inr True"
proof -
  have inv: "inventory_inv (db dm_with_shelf)"
    by (simp add: dm_with_shelf_eq inventory_inv_def positions_ok_def positions_disjoint_def
        example_shelf_def)
  have look1: "get_shelf_by_shelf_number dm_with_shelf (pos_ShelfNumber example_position) = Some 0"
    by (simp add: dm_with_shelf_eq get_shelf_by_shelf_number_def shelf_exists_def
        example_shelf_def example_position_def)
  have add1: "add_position dm_with_shelf 0 example_position = (True, dm_with_position)"
    by (simp add: dm_with_position_def add_position_example)
  have look2: "get_shelf_by_shelf_number dm_with_position (pos_ShelfNumber second_position) = Some 0"
    by (simp add: dm_with_position_eq get_shelf_by_shelf_number_def shelf_exists_def
        example_shelf_def second_position_def)
  have add2: "add_position dm_with_position 0 second_position = (True, dm_two_positions)"
    by (simp add: dm_two_positions_def add_second_position)
  from position_call.add [OF look1 add1] position_call.add [OF look2 add2]
  have steps: "position_call\<^sup>*\<^sup>* dm_with_shelf dm_two_positions" by simp
  have sh: "Shelves (db dm_two_positions)
              = [example_shelf\<lparr>Positions := [example_position, second_position]\<rparr>]"
    by (simp add: dm_two_positions_eq)
  have ps: "Positions (Shelves (db dm_two_positions) ! 0) = [example_position, second_position]"
    by (simp add: sh)
  have look3: "get_shelf_by_shelf_number dm_two_positions (pos_ShelfNumber updated_position)
                 = Some 0"
    by (simp add: dm_two_positions_eq get_shelf_by_shelf_number_def shelf_exists_def
        example_shelf_def updated_position_def)
  have look4: "get_shelf_by_shelf_number dm_two_positions
                 (pos_ShelfNumber (updated_position\<lparr>LEDs := [30]\<rparr>)) = Some 0"
    using look3 by simp
  note inst = positions_stay_led_disjoint [OF inv steps]
  from inst have inv2: "inventory_inv (db dm_two_positions)" by blast
  from inst have "\<forall>shelf\<in>set (Shelves (db dm_two_positions)).
            \<forall>i<length (Positions shelf). \<forall>j<length (Positions shelf).
              i \<noteq> j \<longrightarrow> set (LEDs (Positions shelf ! i)) \<inter> set (LEDs (Positions shelf ! j)) = {}"
    by blast
  then have "\<forall>i<2. \<forall>j<2. i \<noteq> j \<longrightarrow>
               set (LEDs ([example_position, second_position] ! i))
                 \<inter> set (LEDs ([example_position, second_position] ! j)) = {}"
    by (simp add: sh)
  then have "set (LEDs ([example_position, second_position] ! 0))
                 \<inter> set (LEDs ([example_position, second_position] ! 1)) = {}"
    by (metis zero_neq_one zero_less_numeral one_less_numeral_iff semiring_norm(76))
  then have pair: "set (LEDs example_position) \<inter> set (LEDs second_position) = {}"
    by simp
  from inst look3 have
    acc: "fst (update_position dm_two_positions 0 updated_position) = Inr True
            \<longleftrightarrow> PositionId updated_position
                  \<in> PositionId ` set (Positions (Shelves (db dm_two_positions) ! 0)) \<and>
                LEDs updated_position \<noteq> [] \<and>
                (\<forall>q\<in>set (Positions (Shelves (db dm_two_positions) ! 0)).
                   PositionId q \<noteq> PositionId updated_position
                     \<longrightarrow> set (LEDs updated_position) \<inter> set (LEDs q) = {})"
    and res: "fst (update_position dm_two_positions 0 updated_position) = Inr True
            \<longrightarrow> Positions (Shelves (db (snd (update_position dm_two_positions 0
                     updated_position))) ! 0)
                = map (\<lambda>q. if PositionId q = PositionId updated_position
                            then q\<lparr>pos_ShelfNumber := pos_ShelfNumber updated_position,
                                   LEDs := LEDs updated_position\<rparr>
                            else q)
                    (Positions (Shelves (db dm_two_positions) ! 0))"
    by blast+
  from acc have ok: "fst (update_position dm_two_positions 0 updated_position) = Inr True"
    by (simp add: ps example_position_def second_position_def updated_position_def)
  with res have new: "Positions (Shelves (db (snd (update_position dm_two_positions 0
                     updated_position))) ! 0) = [updated_position, second_position]"
    by (simp add: ps example_position_def second_position_def updated_position_def)
  from inst look4 have
    "fst (update_position dm_two_positions 0 (updated_position\<lparr>LEDs := [30]\<rparr>)) = Inr True
       \<longleftrightarrow> PositionId (updated_position\<lparr>LEDs := [30]\<rparr>)
             \<in> PositionId ` set (Positions (Shelves (db dm_two_positions) ! 0)) \<and>
           LEDs (updated_position\<lparr>LEDs := [30]\<rparr>) \<noteq> [] \<and>
           (\<forall>q\<in>set (Positions (Shelves (db dm_two_positions) ! 0)).
              PositionId q \<noteq> PositionId (updated_position\<lparr>LEDs := [30]\<rparr>)
                \<longrightarrow> set (LEDs (updated_position\<lparr>LEDs := [30]\<rparr>)) \<inter> set (LEDs q) = {})"
    by blast
  then have rej: "fst (update_position dm_two_positions 0 (updated_position\<lparr>LEDs := [30]\<rparr>))
                    \<noteq> Inr True"
    by (simp add: ps example_position_def second_position_def updated_position_def)
  have over: "set (LEDs updated_position) \<inter> set (LEDs example_position) \<noteq> {}"
    by (simp add: example_position_def updated_position_def)
  from inv steps sh inv2 pair look3 over ok new rej show ?thesis by blast
qed

end
